theory Spec2Isabelle
  imports Complex_Main "HOL-Library.Word"
begin

section \<open>Go library primitives used by the PMD parsers\<close>

subsection \<open>Strings and character classes\<close>

text \<open>
  A Go \<open>string\<close> is a sequence of bytes; it is modelled as a \<open>char list\<close>, one \<open>char\<close> per
  byte. The classes below are the ones the regular expressions of the source use
  (RE2 syntax: all of them are ASCII only).
\<close>

datatype cclass =
    Digit      \<comment> \<open>\<open>\d\<close>\<close>
  | DigitDot   \<comment> \<open>\<open>[\d.]\<close>\<close>
  | Space      \<comment> \<open>\<open>\s\<close>, that is \<open>[\t\n\f\r ]\<close>\<close>
  | NonSpace   \<comment> \<open>\<open>\S\<close>\<close>
  | WordChar   \<comment> \<open>\<open>\w\<close>, that is \<open>[0-9A-Za-z_]\<close>\<close>
  | AnyChar    \<comment> \<open>\<open>.\<close>: anything but a newline\<close>

definition is_digit :: "char \<Rightarrow> bool" where
  "is_digit c = (c \<in> set ''0123456789'')"

definition is_space :: "char \<Rightarrow> bool" where
  "is_space c = (c \<in> set [CHR 0x09, CHR 0x0A, CHR 0x0C, CHR 0x0D, CHR 0x20])"

definition is_word :: "char \<Rightarrow> bool" where
  "is_word c = (c \<in> set ''0123456789ABCDEFGHIJKLMNOPQRSTUVWXYZ_abcdefghijklmnopqrstuvwxyz'')"

fun in_class :: "cclass \<Rightarrow> char \<Rightarrow> bool" where
  "in_class Digit c = is_digit c"
| "in_class DigitDot c = (is_digit c \<or> c = CHR ''.'')"
| "in_class Space c = is_space c"
| "in_class NonSpace c = (\<not> is_space c)"
| "in_class WordChar c = is_word c"
| "in_class AnyChar c = (c \<noteq> CHR 0x0A)"

subsection \<open>Regular expressions (package regexp)\<close>

text \<open>
  The fragment of RE2 syntax the source uses: literals, greedy repetition of a character
  class, sequence, alternation, a greedy optional group, capturing groups and the anchor
  \<open>^\<close>. Go's \<open>regexp\<close> returns the leftmost match and, among the matches that start there,
  the one a backtracking search tries first; \<open>rx\<close> lists the matches at one position in
  that order, each as (matched text, captured groups, rest of the input).
\<close>

datatype regex =
    Lit string
  | Plus cclass
  | Star cclass
  | Seq regex regex
  | Alt regex regex
  | Opt regex
  | Grp regex
  | Bol

text \<open>All ways to take a run of characters of a class off the front, longest first.\<close>

fun runs :: "cclass \<Rightarrow> string \<Rightarrow> (string \<times> string) list" where
  "runs k [] = [([], [])]"
| "runs k (c # cs) =
     (if in_class k c
      then map (\<lambda>(a, r). (c # a, r)) (runs k cs) @ [([], c # cs)]
      else [([], c # cs)])"

fun rx :: "regex \<Rightarrow> bool \<Rightarrow> string \<Rightarrow> (string \<times> string list \<times> string) list" where
  "rx (Lit l) b s = (if take (length l) s = l then [(l, [], drop (length l) s)] else [])"
| "rx (Plus k) b s = map (\<lambda>(a, r). (a, [], r)) (filter (\<lambda>(a, r). a \<noteq> []) (runs k s))"
| "rx (Star k) b s = map (\<lambda>(a, r). (a, [], r)) (runs k s)"
| "rx (Seq p q) b s =
     concat (map (\<lambda>(a, ca, r).
                    map (\<lambda>(a', ca', r'). (a @ a', ca @ ca', r')) (rx q (b \<and> a = []) r))
                 (rx p b s))"
| "rx (Alt p q) b s = rx p b s @ rx q b s"
| "rx (Opt p) b s = rx p b s @ [([], [], s)]"
| "rx (Grp p) b s = map (\<lambda>(a, ca, r). (a, a # ca, r)) (rx p b s)"
| "rx Bol b s = (if b then [([], [], s)] else [])"

text \<open>
  \<open>re.FindStringSubmatch(s)\<close>: \<open>None\<close> is Go's \<open>nil\<close>; otherwise element 0 is the whole
  match and element \<open>i\<close> the text of the \<open>i\<close>-th group.
\<close>

fun find_from :: "regex \<Rightarrow> bool \<Rightarrow> string \<Rightarrow> string list option" where
  "find_from re b [] = (case rx re b [] of [] \<Rightarrow> None | (a, ca, r) # _ \<Rightarrow> Some (a # ca))"
| "find_from re b (c # cs) =
     (case rx re b (c # cs) of
        [] \<Rightarrow> find_from re False cs
      | (a, ca, r) # _ \<Rightarrow> Some (a # ca))"

definition FindStringSubmatch :: "regex \<Rightarrow> string \<Rightarrow> string list option" where
  "FindStringSubmatch re s = find_from re True s"

text \<open>A sequence of several parts, as the patterns are written.\<close>

fun seqs :: "regex list \<Rightarrow> regex" where
  "seqs [] = Lit []"
| "seqs [p] = p"
| "seqs (p # ps) = Seq p (seqs ps)"

subsection \<open>Reading a text line by line (bufio.Scanner with the default split function)\<close>

text \<open>
  \<open>rawLines\<close> cuts the text at every newline; a last piece without a newline is a line
  of its own unless it is empty. A \<open>bufio.Scanner\<close> hands these lines out one by one,
  each without its trailing carriage return (\<open>dropCR\<close>), as long as the line fits its
  buffer: the buffer never grows beyond \<open>MaxScanTokenSize\<close> bytes, and at a line of that
  many bytes or more \<open>Scan\<close> returns false (the error is \<open>ErrTooLong\<close>, which neither
  parser looks at), so the loop ends there.
\<close>

fun splitLines :: "string \<Rightarrow> string \<Rightarrow> string list" where
  "splitLines cur [] = (if cur = [] then [] else [cur])"
| "splitLines cur (c # cs) =
     (if c = CHR 0x0A then cur # splitLines [] cs else splitLines (cur @ [c]) cs)"

definition rawLines :: "string \<Rightarrow> string list" where
  "rawLines text = splitLines [] text"

definition dropCR :: "string \<Rightarrow> string" where
  "dropCR l = (if l \<noteq> [] \<and> last l = CHR 0x0D then butlast l else l)"

definition MaxScanTokenSize :: nat where
  "MaxScanTokenSize = 64 * 1024"

definition textLines :: "string \<Rightarrow> string list" where
  "textLines text = map dropCR (rawLines text)"

definition scanLines :: "string \<Rightarrow> string list" where
  "scanLines text = map dropCR (takeWhile (\<lambda>l. length l < MaxScanTokenSize) (rawLines text))"

subsection \<open>Numbers (package strconv)\<close>

type_synonym uint64 = "64 word"

definition digit_val :: "char \<Rightarrow> nat" where
  "digit_val c = length (takeWhile (\<lambda>d. d \<noteq> c) ''0123456789'')"

definition digits_val :: "string \<Rightarrow> nat" where
  "digits_val s = fold (\<lambda>c n. 10 * n + digit_val c) s 0"

text \<open>
  \<open>strconv.ParseUint(s, 10, 64)\<close>: \<open>None\<close> stands for a non-nil error (empty input, a
  character that is not a decimal digit, or a value that does not fit 64 bits).
\<close>

definition ParseUint :: "string \<Rightarrow> uint64 option" where
  "ParseUint s =
     (if s \<noteq> [] \<and> list_all is_digit s \<and> digits_val s < 2 ^ 64
      then Some (word_of_nat (digits_val s)) else None)"

text \<open>
  A \<open>float64\<close> field only ever holds a value returned by \<open>strconv.ParseFloat\<close> without
  error, on text of digits and dots: a finite, non-negative binary64 number, here the
  rational number it denotes. The three floating-point operations of the source are
  parameters of the model, so every theorem holds whatever rounding and whatever
  out-of-range conversion the platform has:
  \<^item> \<open>ParseFloat s\<close> is \<open>strconv.ParseFloat(s, 64)\<close>, \<open>None\<close> for a non-nil error;
  \<^item> \<open>FromUint64 n\<close> is the conversion \<open>float64(n)\<close>;
  \<^item> \<open>MulToUint64 x y\<close> is \<open>uint64(x * y)\<close>.
\<close>

type_synonym float64 = rat

record float_ops =
  ParseFloat :: "string \<Rightarrow> float64 option"
  FromUint64 :: "uint64 \<Rightarrow> float64"
  MulToUint64 :: "float64 \<Rightarrow> float64 \<Rightarrow> uint64"

text \<open>
  One instance, for evaluating examples: decimal text read exactly, products exact and
  cut off towards zero. It agrees with binary64 arithmetic wherever the parsed numbers
  and the product are representable exactly and the product is below \<open>2^64\<close>.
\<close>

definition exact_ParseFloat :: "string \<Rightarrow> float64 option" where
  "exact_ParseFloat s =
     (let ip = takeWhile is_digit s; rest = dropWhile is_digit s
      in case rest of
           [] \<Rightarrow> if ip = [] then None else Some (of_nat (digits_val ip))
         | c # fp \<Rightarrow>
             if c = CHR ''.'' \<and> list_all is_digit fp \<and> ip @ fp \<noteq> []
             then Some (of_nat (digits_val (ip @ fp)) / 10 ^ length fp)
             else None)"

definition exact_floats :: float_ops where
  "exact_floats =
     \<lparr> ParseFloat = exact_ParseFloat,
       FromUint64 = (\<lambda>n. of_nat (unat n)),
       MulToUint64 = (\<lambda>x y. word_of_int \<lfloor>x * y\<rfloor>) \<rparr>"

text \<open>The guards of the source: run the body only when the pattern or the number is there.\<close>

definition on_match :: "regex \<Rightarrow> string \<Rightarrow> (string list \<Rightarrow> 'a \<Rightarrow> 'a) \<Rightarrow> 'a \<Rightarrow> 'a" where
  "on_match re line f m = (case FindStringSubmatch re line of None \<Rightarrow> m | Some ms \<Rightarrow> f ms m)"

definition with_uint :: "string \<Rightarrow> (uint64 \<Rightarrow> 'a \<Rightarrow> 'a) \<Rightarrow> 'a \<Rightarrow> 'a" where
  "with_uint s f m = (case ParseUint s of None \<Rightarrow> m | Some v \<Rightarrow> f v m)"

definition with_float :: "float_ops \<Rightarrow> string \<Rightarrow> (float64 \<Rightarrow> 'a \<Rightarrow> 'a) \<Rightarrow> 'a \<Rightarrow> 'a" where
  "with_float ops s f m = (case ParseFloat ops s of None \<Rightarrow> m | Some v \<Rightarrow> f v m)"

definition apply_in_order :: "('a \<Rightarrow> 'a) list \<Rightarrow> 'a \<Rightarrow> 'a" where
  "apply_in_order us m = fold (\<lambda>u x. u x) us m"

text \<open>The thread header, the same pattern in both parsers.\<close>

definition pmdHeaderRe :: regex where
  "pmdHeaderRe =
     seqs [Lit ''pmd thread numa_id '', Grp (Plus Digit), Lit '' core_id '',
           Grp (Plus Digit), Lit '':'']"

section \<open>The basic parser (pmd\_metrics.go)\<close>

record PmdPerformanceMetrics =
  PmdID :: string
  NumaID :: string
  Iterations :: uint64
  BusyCycles :: uint64
  CyclesPerIteration :: float64
  PacketsPerIteration :: float64
  CyclesPerPacket :: float64
  PacketsPerBatch :: float64
  MaxVhostQueueLength :: uint64
  Upcalls :: uint64
  UpcallCycles :: uint64
  TxRetries :: uint64
  TxContention :: uint64
  TxIrqs :: uint64

text \<open>Go's \<open>error\<close> values are modelled by their message; \<open>None\<close> is the nil error.\<close>

type_synonym error = string

definition zeroPmdPerformanceMetrics :: PmdPerformanceMetrics where
  "zeroPmdPerformanceMetrics =
     \<lparr> PmdID = [], NumaID = [], Iterations = 0, BusyCycles = 0, CyclesPerIteration = 0,
       PacketsPerIteration = 0, CyclesPerPacket = 0, PacketsPerBatch = 0,
       MaxVhostQueueLength = 0, Upcalls = 0, UpcallCycles = 0, TxRetries = 0,
       TxContention = 0, TxIrqs = 0 \<rparr>"

definition perf_iterationsRe :: regex where
  "perf_iterationsRe =
     seqs [Lit ''iterations:'', Plus Space, Grp (Plus Digit), Plus Space, Lit ''('',
           Plus DigitDot, Plus Space, Lit ''us/it)'']"

definition perf_busyCyclesRe :: regex where
  "perf_busyCyclesRe =
     seqs [Lit ''busy cycles:'', Plus Space, Grp (Plus DigitDot), Lit ''%'', Star AnyChar,
           Lit ''('', Grp (Plus DigitDot), Lit '' Mcycles'', Star AnyChar, Lit '')'']"

definition cyclesPerItRe :: regex where
  "cyclesPerItRe =
     seqs [Lit ''cycles/it:'', Plus Space, Grp (Plus DigitDot), Plus Space, Lit ''('',
           Grp (Plus DigitDot), Lit '' Mcycles)'']"

definition pktsPerItRe :: regex where
  "pktsPerItRe = seqs [Lit ''pkts/it:'', Plus Space, Grp (Plus DigitDot)]"

definition cyclesPerPktRe :: regex where
  "cyclesPerPktRe = seqs [Lit ''cycles/pkt:'', Plus Space, Grp (Plus DigitDot)]"

definition pktsPerBatchRe :: regex where
  "pktsPerBatchRe = seqs [Lit ''avg pkts/batch:'', Plus Space, Grp (Plus DigitDot)]"

definition perf_maxVhostQRe :: regex where
  "perf_maxVhostQRe = seqs [Lit ''avg max vhost qlen:'', Plus Space, Grp (Plus Digit)]"

definition upcallsRe :: regex where
  "upcallsRe =
     seqs [Lit ''upcalls:'', Plus Space, Grp (Plus Digit), Plus Space, Lit ''('',
           Grp (Plus DigitDot), Lit '' us'', Plus Space, Grp (Plus DigitDot),
           Lit '' Mcycles)'']"

definition txRetriesRe :: regex where
  "txRetriesRe = seqs [Lit ''vhost tx retries:'', Plus Space, Grp (Plus Digit)]"

definition txContentionRe :: regex where
  "txContentionRe = seqs [Lit ''vhost tx contention:'', Plus Space, Grp (Plus Digit)]"

definition txIrqsRe :: regex where
  "txIrqsRe = seqs [Lit ''vhost tx irqs:'', Plus Space, Grp (Plus Digit)]"

text \<open>
  The body of the loop after the header check, for a line read while a record is being
  built: the eleven field patterns, tried one after the other in the order of the source.
\<close>

definition perf_fields :: "float_ops \<Rightarrow> string \<Rightarrow> PmdPerformanceMetrics \<Rightarrow> PmdPerformanceMetrics" where
  "perf_fields ops line =
     apply_in_order
       [ on_match perf_iterationsRe line
           (\<lambda>ms. with_uint (ms ! 1) (\<lambda>v m. m\<lparr>Iterations := v\<rparr>)),
         on_match perf_busyCyclesRe line
           (\<lambda>ms. with_float ops (ms ! 2)
                    (\<lambda>v m. m\<lparr>BusyCycles := MulToUint64 ops v 1000000\<rparr>)),
         on_match cyclesPerItRe line
           (\<lambda>ms. with_float ops (ms ! 1) (\<lambda>v m. m\<lparr>CyclesPerIteration := v\<rparr>)),
         on_match pktsPerItRe line
           (\<lambda>ms. with_float ops (ms ! 1) (\<lambda>v m. m\<lparr>PacketsPerIteration := v\<rparr>)),
         on_match cyclesPerPktRe line
           (\<lambda>ms. with_float ops (ms ! 1) (\<lambda>v m. m\<lparr>CyclesPerPacket := v\<rparr>)),
         on_match pktsPerBatchRe line
           (\<lambda>ms. with_float ops (ms ! 1) (\<lambda>v m. m\<lparr>PacketsPerBatch := v\<rparr>)),
         on_match perf_maxVhostQRe line
           (\<lambda>ms. with_uint (ms ! 1) (\<lambda>v m. m\<lparr>MaxVhostQueueLength := v\<rparr>)),
         on_match upcallsRe line
           (\<lambda>ms. apply_in_order
                    [ with_uint (ms ! 1) (\<lambda>v m. m\<lparr>Upcalls := v\<rparr>),
                      with_float ops (ms ! 3)
                        (\<lambda>v m. m\<lparr>UpcallCycles := MulToUint64 ops v 1000000\<rparr>) ]),
         on_match txRetriesRe line
           (\<lambda>ms. with_uint (ms ! 1) (\<lambda>v m. m\<lparr>TxRetries := v\<rparr>)),
         on_match txContentionRe line
           (\<lambda>ms. with_uint (ms ! 1) (\<lambda>v m. m\<lparr>TxContention := v\<rparr>)),
         on_match txIrqsRe line
           (\<lambda>ms. with_uint (ms ! 1) (\<lambda>v m. m\<lparr>TxIrqs := v\<rparr>)) ]"

text \<open>
  The loop over the scanned lines. The state is the slice \<open>metrics\<close> and the pointer
  \<open>currentMetric\<close> (\<open>None\<close> for nil). A header line appends the record being built, if
  any, and starts a new one; any other line is skipped while no record is being built.
\<close>

fun perf_loop ::
  "float_ops \<Rightarrow> PmdPerformanceMetrics list \<Rightarrow> PmdPerformanceMetrics option \<Rightarrow> string list
     \<Rightarrow> PmdPerformanceMetrics list \<times> PmdPerformanceMetrics option" where
  "perf_loop ops metrics cur [] = (metrics, cur)"
| "perf_loop ops metrics cur (line # rest) =
     (case FindStringSubmatch pmdHeaderRe line of
        Some ms \<Rightarrow>
          perf_loop ops (case cur of None \<Rightarrow> metrics | Some m \<Rightarrow> metrics @ [m])
            (Some (zeroPmdPerformanceMetrics\<lparr>NumaID := ms ! 1, PmdID := ms ! 2\<rparr>)) rest
      | None \<Rightarrow>
          (case cur of
             None \<Rightarrow> perf_loop ops metrics None rest
           | Some m \<Rightarrow> perf_loop ops metrics (Some (perf_fields ops line m)) rest))"

definition parsePmdPerfOutput ::
  "float_ops \<Rightarrow> string \<Rightarrow> PmdPerformanceMetrics list \<times> error option" where
  "parsePmdPerfOutput ops output =
     (case perf_loop ops [] None (scanLines output) of
        (metrics, None) \<Rightarrow> (metrics, None)
      | (metrics, Some m) \<Rightarrow> (metrics @ [m], None))"

section \<open>The enhanced parser (parseEnhancedPmdOutput)\<close>

record EnhancedPmdMetrics =
  PmdID :: string
  NumaID :: string
  CoreID :: string
  CPUUtilization :: float64
  IdleCycles :: uint64
  BusyCycles :: uint64
  TotalCycles :: uint64
  Iterations :: uint64
  SleepIterations :: uint64
  BusyIterations :: uint64
  CyclesPerIteration :: float64
  UsPerIteration :: float64
  PacketsPerIteration :: float64
  CyclesPerPacket :: float64
  PacketsPerBatch :: float64
  TotalPackets :: uint64
  RxBatches :: uint64
  RxPackets :: uint64
  AvgRxBatchSize :: float64
  MaxRxBatchSize :: uint64
  TxBatches :: uint64
  TxPackets :: uint64
  AvgTxBatchSize :: float64
  MaxVhostQueueLength :: uint64
  AvgVhostQueueLength :: float64
  VhostQueueFull :: uint64
  Upcalls :: uint64
  UpcallCycles :: uint64
  AvgUpcallCycles :: float64
  VhostTxRetries :: uint64
  VhostTxContention :: uint64
  VhostTxIrqs :: uint64
  ExactMatchHit :: uint64
  MaskedHit :: uint64
  Miss :: uint64
  Lost :: uint64
  CyclesHistogram :: "string \<rightharpoonup> uint64"
  PacketsHistogram :: "string \<rightharpoonup> uint64"
  BatchSizeHistogram :: "string \<rightharpoonup> uint64"
  SuspiciousIterations :: uint64
  SuspiciousPercent :: float64

text \<open>
  The composite literal of the header branch: the three identity fields from the two
  capture groups, three empty maps, every other field at its zero value.
\<close>

definition newEnhancedPmdMetrics :: "string \<Rightarrow> string \<Rightarrow> EnhancedPmdMetrics" where
  "newEnhancedPmdMetrics numa core =
     \<lparr> PmdID = core, NumaID = numa, CoreID = core, CPUUtilization = 0, IdleCycles = 0,
       BusyCycles = 0, TotalCycles = 0, Iterations = 0, SleepIterations = 0,
       BusyIterations = 0, CyclesPerIteration = 0, UsPerIteration = 0,
       PacketsPerIteration = 0, CyclesPerPacket = 0, PacketsPerBatch = 0, TotalPackets = 0,
       RxBatches = 0, RxPackets = 0, AvgRxBatchSize = 0, MaxRxBatchSize = 0, TxBatches = 0,
       TxPackets = 0, AvgTxBatchSize = 0, MaxVhostQueueLength = 0, AvgVhostQueueLength = 0,
       VhostQueueFull = 0, Upcalls = 0, UpcallCycles = 0, AvgUpcallCycles = 0,
       VhostTxRetries = 0, VhostTxContention = 0, VhostTxIrqs = 0, ExactMatchHit = 0,
       MaskedHit = 0, Miss = 0, Lost = 0, CyclesHistogram = Map.empty,
       PacketsHistogram = Map.empty, BatchSizeHistogram = Map.empty,
       SuspiciousIterations = 0, SuspiciousPercent = 0 \<rparr>"

definition cpuUtilRe :: regex where
  "cpuUtilRe =
     seqs [Alt (Lit ''cpu'') (Lit ''processor''), Lit '' utilization:'', Plus Space,
           Grp (Plus DigitDot), Lit ''%'']"

definition idleCyclesRe :: regex where
  "idleCyclesRe =
     seqs [Lit ''idle cycles:'', Plus Space, Grp (Plus DigitDot), Lit ''%'', Star AnyChar,
           Lit ''('', Grp (Plus DigitDot), Lit '' Mcycles'']"

definition busyCyclesRe :: regex where
  "busyCyclesRe =
     seqs [Lit ''busy cycles:'', Plus Space, Grp (Plus DigitDot), Lit ''%'', Star AnyChar,
           Lit ''('', Grp (Plus DigitDot), Lit '' Mcycles'']"

definition iterationsRe :: regex where
  "iterationsRe =
     seqs [Lit ''iterations:'', Plus Space, Grp (Plus Digit), Plus Space, Lit ''('',
           Grp (Plus DigitDot), Lit '' us/it)'']"

definition sleepIterRe :: regex where
  "sleepIterRe =
     seqs [Lit ''sleep iterations:'', Plus Space, Grp (Plus Digit), Plus Space, Lit ''('',
           Grp (Plus DigitDot), Lit ''%'']"

definition rxBatchRe :: regex where
  "rxBatchRe =
     seqs [Lit ''rx batches:'', Plus Space, Grp (Plus Digit), Star AnyChar, Lit ''avg:'',
           Plus Space, Grp (Plus DigitDot), Star AnyChar, Lit ''max:'', Plus Space,
           Grp (Plus Digit)]"

definition txBatchRe :: regex where
  "txBatchRe =
     seqs [Lit ''tx batches:'', Plus Space, Grp (Plus Digit), Star AnyChar, Lit ''avg:'',
           Plus Space, Grp (Plus DigitDot)]"

definition rxPacketsRe :: regex where
  "rxPacketsRe = seqs [Lit ''rx packets:'', Plus Space, Grp (Plus Digit)]"

definition txPacketsRe :: regex where
  "txPacketsRe = seqs [Lit ''tx packets:'', Plus Space, Grp (Plus Digit)]"

definition maxVhostQRe :: regex where
  "maxVhostQRe =
     seqs [Opt (Lit ''avg ''), Lit ''max vhost qlen:'', Plus Space, Grp (Plus Digit)]"

definition avgVhostQRe :: regex where
  "avgVhostQRe = seqs [Lit ''avg vhost qlen:'', Plus Space, Grp (Plus DigitDot)]"

definition vhostFullRe :: regex where
  "vhostFullRe = seqs [Lit ''vhost queue full:'', Plus Space, Grp (Plus Digit)]"

definition avgUpcallRe :: regex where
  "avgUpcallRe = seqs [Lit ''avg upcall cycles:'', Plus Space, Grp (Plus DigitDot)]"

definition exactHitRe :: regex where
  "exactHitRe = seqs [Lit ''exact match hit:'', Plus Space, Grp (Plus Digit)]"

definition maskedHitRe :: regex where
  "maskedHitRe = seqs [Lit ''masked hit:'', Plus Space, Grp (Plus Digit)]"

definition missRe :: regex where
  "missRe = seqs [Lit ''miss:'', Plus Space, Grp (Plus Digit)]"

definition lostRe :: regex where
  "lostRe = seqs [Lit ''lost:'', Plus Space, Grp (Plus Digit)]"

definition suspiciousRe :: regex where
  "suspiciousRe =
     seqs [Lit ''suspicious iterations:'', Plus Space, Grp (Plus Digit), Plus Space,
           Lit ''('', Grp (Plus DigitDot), Lit ''%)'']"

definition histogramRe :: regex where
  "histogramRe = seqs [Grp (Plus WordChar), Lit '' histogram:'']"

definition histogramEntryRe :: regex where
  "histogramEntryRe =
     seqs [Plus Space,
           Grp (Alt (seqs [Plus Digit, Lit ''-'', Plus Digit]) (seqs [Plus Digit, Lit ''+''])),
           Lit '':'', Plus Space, Grp (Plus Digit)]"

text \<open>
  The field patterns of the loop body, in the order of the source. Every pattern is tried
  on every line; a number that does not parse leaves its field as it was.
\<close>

definition enh_fields :: "float_ops \<Rightarrow> string \<Rightarrow> EnhancedPmdMetrics \<Rightarrow> EnhancedPmdMetrics" where
  "enh_fields ops line =
     apply_in_order
       [ on_match cpuUtilRe line
           (\<lambda>ms. with_float ops (ms ! 1) (\<lambda>v m. m\<lparr>CPUUtilization := v\<rparr>)),
         on_match idleCyclesRe line
           (\<lambda>ms. with_float ops (ms ! 2)
                    (\<lambda>v m. m\<lparr>IdleCycles := MulToUint64 ops v 1000000\<rparr>)),
         on_match busyCyclesRe line
           (\<lambda>ms. apply_in_order
                    [ with_float ops (ms ! 1) (\<lambda>v m. m\<lparr>CPUUtilization := v\<rparr>),
                      with_float ops (ms ! 2)
                        (\<lambda>v m. m\<lparr>BusyCycles := MulToUint64 ops v 1000000\<rparr>) ]),
         on_match iterationsRe line
           (\<lambda>ms. apply_in_order
                    [ with_uint (ms ! 1) (\<lambda>v m. m\<lparr>Iterations := v\<rparr>),
                      with_float ops (ms ! 2) (\<lambda>v m. m\<lparr>UsPerIteration := v\<rparr>) ]),
         on_match sleepIterRe line
           (\<lambda>ms. with_uint (ms ! 1)
                    (\<lambda>v m. m\<lparr>SleepIterations := v, BusyIterations := Iterations m - v\<rparr>)),
         on_match cyclesPerItRe line
           (\<lambda>ms. with_float ops (ms ! 1) (\<lambda>v m. m\<lparr>CyclesPerIteration := v\<rparr>)),
         on_match pktsPerItRe line
           (\<lambda>ms. with_float ops (ms ! 1) (\<lambda>v m. m\<lparr>PacketsPerIteration := v\<rparr>)),
         on_match cyclesPerPktRe line
           (\<lambda>ms. with_float ops (ms ! 1) (\<lambda>v m. m\<lparr>CyclesPerPacket := v\<rparr>)),
         on_match pktsPerBatchRe line
           (\<lambda>ms. with_float ops (ms ! 1) (\<lambda>v m. m\<lparr>PacketsPerBatch := v\<rparr>)),
         on_match rxBatchRe line
           (\<lambda>ms. apply_in_order
                    [ with_uint (ms ! 1) (\<lambda>v m. m\<lparr>RxBatches := v\<rparr>),
                      with_float ops (ms ! 2) (\<lambda>v m. m\<lparr>AvgRxBatchSize := v\<rparr>),
                      with_uint (ms ! 3) (\<lambda>v m. m\<lparr>MaxRxBatchSize := v\<rparr>) ]),
         on_match rxPacketsRe line
           (\<lambda>ms. with_uint (ms ! 1) (\<lambda>v m. m\<lparr>RxPackets := v\<rparr>)),
         on_match txBatchRe line
           (\<lambda>ms. apply_in_order
                    [ with_uint (ms ! 1) (\<lambda>v m. m\<lparr>TxBatches := v\<rparr>),
                      with_float ops (ms ! 2) (\<lambda>v m. m\<lparr>AvgTxBatchSize := v\<rparr>) ]),
         on_match txPacketsRe line
           (\<lambda>ms. with_uint (ms ! 1) (\<lambda>v m. m\<lparr>TxPackets := v\<rparr>)),
         on_match maxVhostQRe line
           (\<lambda>ms. with_uint (ms ! 1) (\<lambda>v m. m\<lparr>MaxVhostQueueLength := v\<rparr>)),
         on_match avgVhostQRe line
           (\<lambda>ms. with_float ops (ms ! 1) (\<lambda>v m. m\<lparr>AvgVhostQueueLength := v\<rparr>)),
         on_match vhostFullRe line
           (\<lambda>ms. with_uint (ms ! 1) (\<lambda>v m. m\<lparr>VhostQueueFull := v\<rparr>)),
         on_match upcallsRe line
           (\<lambda>ms. apply_in_order
                    [ with_uint (ms ! 1) (\<lambda>v m. m\<lparr>Upcalls := v\<rparr>),
                      with_float ops (ms ! 3)
                        (\<lambda>v m. m\<lparr>UpcallCycles := MulToUint64 ops v 1000000\<rparr>) ]),
         on_match avgUpcallRe line
           (\<lambda>ms. with_float ops (ms ! 1) (\<lambda>v m. m\<lparr>AvgUpcallCycles := v\<rparr>)),
         on_match txRetriesRe line
           (\<lambda>ms. with_uint (ms ! 1) (\<lambda>v m. m\<lparr>VhostTxRetries := v\<rparr>)),
         on_match txContentionRe line
           (\<lambda>ms. with_uint (ms ! 1) (\<lambda>v m. m\<lparr>VhostTxContention := v\<rparr>)),
         on_match txIrqsRe line
           (\<lambda>ms. with_uint (ms ! 1) (\<lambda>v m. m\<lparr>VhostTxIrqs := v\<rparr>)),
         on_match exactHitRe line
           (\<lambda>ms. with_uint (ms ! 1) (\<lambda>v m. m\<lparr>ExactMatchHit := v\<rparr>)),
         on_match maskedHitRe line
           (\<lambda>ms. with_uint (ms ! 1) (\<lambda>v m. m\<lparr>MaskedHit := v\<rparr>)),
         on_match missRe line
           (\<lambda>ms. with_uint (ms ! 1) (\<lambda>v m. m\<lparr>Miss := v\<rparr>)),
         on_match lostRe line
           (\<lambda>ms. with_uint (ms ! 1) (\<lambda>v m. m\<lparr>Lost := v\<rparr>)),
         on_match suspiciousRe line
           (\<lambda>ms. apply_in_order
                    [ with_uint (ms ! 1) (\<lambda>v m. m\<lparr>SuspiciousIterations := v\<rparr>),
                      with_float ops (ms ! 2) (\<lambda>v m. m\<lparr>SuspiciousPercent := v\<rparr>) ]) ]"

text \<open>
  \<open>currentHistogram\<close> points at one of the three maps of the record being built, or is
  nil. The name in front of \<open>histogram:\<close> is lowered first; it is made of word characters,
  so \<open>strings.ToLower\<close> only changes the letters A to Z.
\<close>

datatype histogram_ref = InCycles | InPackets | InBatchSize

definition ToLower :: "string \<Rightarrow> string" where
  "ToLower s =
     map (\<lambda>c. case map_of (zip ''ABCDEFGHIJKLMNOPQRSTUVWXYZ'' ''abcdefghijklmnopqrstuvwxyz'') c of
                 None \<Rightarrow> c | Some l \<Rightarrow> l) s"

definition select_histogram :: "string \<Rightarrow> histogram_ref option" where
  "select_histogram histogramType =
     (if histogramType = ''cycles'' then Some InCycles
      else if histogramType = ''packets'' then Some InPackets
      else if histogramType = ''batch'' then Some InBatchSize
      else None)"

fun histogram_store :: "histogram_ref \<Rightarrow> string \<Rightarrow> uint64 \<Rightarrow> EnhancedPmdMetrics \<Rightarrow> EnhancedPmdMetrics" where
  "histogram_store InCycles k v m = m\<lparr>CyclesHistogram := (CyclesHistogram m)(k \<mapsto> v)\<rparr>"
| "histogram_store InPackets k v m = m\<lparr>PacketsHistogram := (PacketsHistogram m)(k \<mapsto> v)\<rparr>"
| "histogram_store InBatchSize k v m = m\<lparr>BatchSizeHistogram := (BatchSizeHistogram m)(k \<mapsto> v)\<rparr>"

definition histogram_entry :: "histogram_ref option \<Rightarrow> string \<Rightarrow> EnhancedPmdMetrics \<Rightarrow> EnhancedPmdMetrics" where
  "histogram_entry cur_hist line m =
     (case cur_hist of
        None \<Rightarrow> m
      | Some h \<Rightarrow> on_match histogramEntryRe line
                    (\<lambda>ms. with_uint (ms ! 2) (\<lambda>v. histogram_store h (ms ! 1) v)) m)"

text \<open>
  The loop of the enhanced parser. A header line appends the record being built as it
  is, starts a new record and resets \<open>currentHistogram\<close>. On any other line, with a record
  being built, the field patterns run first; a histogram header then redirects
  \<open>currentHistogram\<close> and ends the iteration, and otherwise a histogram entry is stored.
\<close>

fun enh_loop ::
  "float_ops \<Rightarrow> EnhancedPmdMetrics list \<Rightarrow> EnhancedPmdMetrics option \<Rightarrow> histogram_ref option
     \<Rightarrow> string list \<Rightarrow> EnhancedPmdMetrics list \<times> EnhancedPmdMetrics option" where
  "enh_loop ops metrics cur h [] = (metrics, cur)"
| "enh_loop ops metrics cur h (line # rest) =
     (case FindStringSubmatch pmdHeaderRe line of
        Some ms \<Rightarrow>
          enh_loop ops (case cur of None \<Rightarrow> metrics | Some m \<Rightarrow> metrics @ [m])
            (Some (newEnhancedPmdMetrics (ms ! 1) (ms ! 2))) None rest
      | None \<Rightarrow>
          (case cur of
             None \<Rightarrow> enh_loop ops metrics None h rest
           | Some m \<Rightarrow>
               (let m' = enh_fields ops line m
                in case FindStringSubmatch histogramRe line of
                     Some hs \<Rightarrow>
                       enh_loop ops metrics (Some m') (select_histogram (ToLower (hs ! 1))) rest
                   | None \<Rightarrow>
                       enh_loop ops metrics (Some (histogram_entry h line m')) h rest)))"

text \<open>The block after the loop: the derived totals of the record still being built.\<close>

definition derive_totals :: "float_ops \<Rightarrow> EnhancedPmdMetrics \<Rightarrow> EnhancedPmdMetrics" where
  "derive_totals ops m =
     (let m1 = (if TotalCycles m = 0
                then m\<lparr>TotalCycles := BusyCycles m + IdleCycles m\<rparr> else m)
      in if TotalPackets m1 = 0 \<and> Iterations m1 > 0
         then m1\<lparr>TotalPackets :=
                   MulToUint64 ops (FromUint64 ops (Iterations m1)) (PacketsPerIteration m1)\<rparr>
         else m1)"

definition parseEnhancedPmdOutput :: "float_ops \<Rightarrow> string \<Rightarrow> EnhancedPmdMetrics list" where
  "parseEnhancedPmdOutput ops output =
     (case enh_loop ops [] None None (scanLines output) of
        (metrics, None) \<Rightarrow> metrics
      | (metrics, Some m) \<Rightarrow> metrics @ [derive_totals ops m])"

section \<open>Running the diagnostic commands\<close>

text \<open>
  \<open>exec.Command(name, args...).Output()\<close> is the only way the code reaches the packet
  engine. What a command prints is not the program's to decide: the model takes it from
  \<open>src\<close>, which gives the outcome of the \<open>n\<close>-th invocation (counted from 0) of a command
  line, \<open>Inl\<close> the error message or \<open>Inr\<close> the standard output. The \<open>world\<close> records the
  command lines run so far, in order.
\<close>

type_synonym sources = "nat \<Rightarrow> string list \<Rightarrow> error + string"

record world =
  invocations :: "string list list"

definition Output :: "sources \<Rightarrow> string list \<Rightarrow> world \<Rightarrow> (error + string) \<times> world" where
  "Output src cmd w =
     (src (length (invocations w)) cmd, w\<lparr>invocations := invocations w @ [cmd]\<rparr>)"

fun Contains :: "string \<Rightarrow> string \<Rightarrow> bool" where
  "Contains [] sub = (sub = [])"
| "Contains (c # cs) sub = (take (length sub) (c # cs) = sub \<or> Contains cs sub)"

section \<open>The multi-source merger\<close>

definition GetPmdPerfMetrics ::
  "float_ops \<Rightarrow> sources \<Rightarrow> world \<Rightarrow> (PmdPerformanceMetrics list \<times> error option) \<times> world" where
  "GetPmdPerfMetrics ops src w =
     (case Output src [''ovs-appctl'', ''dpif-netdev/pmd-perf-show''] w of
        (Inl err, w1) \<Rightarrow>
          if Contains err ''exit status'' then (([], None), w1)
          else (([], Some (''failed to execute pmd-perf-show: '' @ err)), w1)
      | (Inr output, w1) \<Rightarrow> (parsePmdPerfOutput ops output, w1))"

text \<open>The body of \<open>enrichWithStats\<close> is comments only: the slice is left as it is.\<close>

definition enrichWithStats :: "EnhancedPmdMetrics list \<Rightarrow> string \<Rightarrow> EnhancedPmdMetrics list" where
  "enrichWithStats metrics statsOutput = metrics"

definition GetEnhancedPmdMetrics ::
  "float_ops \<Rightarrow> sources \<Rightarrow> world \<Rightarrow> (EnhancedPmdMetrics list \<times> error option) \<times> world" where
  "GetEnhancedPmdMetrics ops src w =
     (case Output src [''ovs-appctl'', ''dpif-netdev/pmd-perf-show''] w of
        (Inl err, w1) \<Rightarrow>
          if Contains err ''exit status'' then (([], None), w1)
          else (([], Some (''failed to execute pmd-perf-show: '' @ err)), w1)
      | (Inr output, w1) \<Rightarrow>
          (let metrics = parseEnhancedPmdOutput ops output
           in case Output src [''ovs-appctl'', ''dpif-netdev/pmd-stats-show''] w1 of
                (Inr statsOutput, w2) \<Rightarrow> ((enrichWithStats metrics statsOutput, None), w2)
              | (Inl err, w2) \<Rightarrow> ((metrics, None), w2)))"

subsection \<open>Drop counters\<close>

definition dropTypes :: "string list" where
  "dropTypes =
     [ ''datapath_drop_upcall_error'',
       ''datapath_drop_lock_error'',
       ''datapath_drop_rx_invalid_packet'',
       ''datapath_drop_meter'',
       ''datapath_drop_userspace_action_error'',
       ''datapath_drop_tunnel_push_error'',
       ''datapath_drop_tunnel_pop_error'',
       ''datapath_drop_recirc_error'',
       ''datapath_drop_invalid_port'',
       ''datapath_drop_invalid_tnl_port'',
       ''datapath_drop_sample_error'',
       ''datapath_drop_nsh_decap_error'',
       ''drop_action_of_pipeline'',
       ''drop_action_bridge_not_found'',
       ''drop_action_recursion_too_deep'',
       ''drop_action_too_many_resubmit'',
       ''drop_action_stack_too_deep'',
       ''drop_action_no_recirculation'',
       ''drop_action_recirculation_conflict'',
       ''drop_action_too_many_mpls_labels'',
       ''drop_action_invalid_tunnel_metadata'',
       ''drop_action_unsupported_packet_type'',
       ''drop_action_congestion'',
       ''drop_action_forwarding_disabled'' ]"

definition coverageRe :: regex where
  "coverageRe = seqs [Bol, Grp (Plus NonSpace), Plus Space, Grp (Plus Digit)]"

text \<open>
  \<open>strings.TrimSpace\<close> removes the white space of Unicode at both ends. On the bytes
  of the string these are the six ASCII characters and the UTF-8 encodings of U+0085,
  U+00A0, U+1680, U+2000 to U+200A, U+2028, U+2029, U+202F, U+205F and U+3000.
\<close>

definition unicodeSpaces :: "string list" where
  "unicodeSpaces =
     map (\<lambda>c. [c]) [CHR 0x09, CHR 0x0A, CHR 0x0B, CHR 0x0C, CHR 0x0D, CHR 0x20]
     @ [[CHR 0xC2, CHR 0x85], [CHR 0xC2, CHR 0xA0], [CHR 0xE1, CHR 0x9A, CHR 0x80]]
     @ map (\<lambda>c. [CHR 0xE2, CHR 0x80, c])
         [CHR 0x80, CHR 0x81, CHR 0x82, CHR 0x83, CHR 0x84, CHR 0x85, CHR 0x86, CHR 0x87,
          CHR 0x88, CHR 0x89, CHR 0x8A, CHR 0xA8, CHR 0xA9, CHR 0xAF]
     @ [[CHR 0xE2, CHR 0x81, CHR 0x9F], [CHR 0xE3, CHR 0x80, CHR 0x80]]"

fun trimFront :: "string list \<Rightarrow> string \<Rightarrow> string" where
  "trimFront sps [] = []"
| "trimFront sps (c # cs) =
     (case filter (\<lambda>sp. sp \<noteq> [] \<and> take (length sp) (c # cs) = sp) sps of
        [] \<Rightarrow> c # cs
      | sp # _ \<Rightarrow> trimFront sps (drop (length sp - 1) cs))"

definition TrimSpace :: "string \<Rightarrow> string" where
  "TrimSpace s = rev (trimFront (map rev unicodeSpaces) (rev (trimFront unicodeSpaces s)))"

definition drop_line :: "string \<Rightarrow> (string \<rightharpoonup> uint64) \<Rightarrow> (string \<rightharpoonup> uint64)" where
  "drop_line text dropCounters =
     (let line = TrimSpace text
      in on_match coverageRe line
           (\<lambda>ms m. if ms ! 1 \<in> set dropTypes
                    then with_uint (ms ! 2) (\<lambda>v m'. m'(ms ! 1 \<mapsto> v)) m
                    else m)
           dropCounters)"

definition GetDropCounters ::
  "sources \<Rightarrow> world \<Rightarrow> ((string \<rightharpoonup> uint64) \<times> error option) \<times> world" where
  "GetDropCounters src w =
     (case Output src [''ovs-appctl'', ''coverage/show''] w of
        (Inl err, w1) \<Rightarrow> ((Map.empty, Some (''failed to get coverage: '' @ err)), w1)
      | (Inr output, w1) \<Rightarrow> ((fold drop_line (scanLines output) Map.empty, None), w1))"

section \<open>The exporter and its snapshot\<close>

text \<open>
  A metric as \<open>prometheus.MustNewConstMetric\<close> builds it: the descriptor, the kind, the
  sample and the label values. The sample is the \<open>float64\<close> expression of the source,
  kept as written: a \<open>float64\<close> field, a field divided by \<open>100.0\<close>, or the conversion of an
  integer.
\<close>

datatype value_type = GaugeValue | CounterValue

datatype sample = Float float64 | Percent float64 | OfUint64 uint64 | OfInt64 int

datatype Metric = ConstMetric string value_type sample "string list"

text \<open>
  The fields of \<open>Exporter\<close> that the snapshot logic reads and writes. \<open>int64\<close> fields are
  integers kept in range by \<open>int64\<close>; \<open>SystemID\<close> stands for \<open>e.Client.System.ID\<close>.
\<close>

record Exporter =
  SystemID :: string
  pollInterval :: int
  errors :: int
  totalRequests :: int
  nextCollectionTicker :: int
  metrics :: "Metric list"

definition int64 :: "int \<Rightarrow> int" where
  "int64 x = (x + 2 ^ 63) mod 2 ^ 64 - 2 ^ 63"

definition IncrementErrorCounter :: "Exporter \<Rightarrow> Exporter" where
  "IncrementErrorCounter e = e\<lparr>errors := int64 (errors e + 1)\<rparr>"

text \<open>
  \<open>collectDropCounters\<close>: on an error of \<open>GetDropCounters\<close> the function logs at debug
  level and returns. Otherwise it appends one metric for each entry of the map; Go ranges
  over a map in no specified order, the model takes the entries in the order of
  \<open>dropTypes\<close> (the keys of the map are among them).
\<close>

definition collectDropCounters :: "sources \<Rightarrow> Exporter \<times> world \<Rightarrow> Exporter \<times> world" where
  "collectDropCounters src = (\<lambda>(e, w).
     case GetDropCounters src w of
       ((dropCounters, Some err), w1) \<Rightarrow> (e, w1)
     | ((dropCounters, None), w1) \<Rightarrow>
         (e\<lparr>metrics := metrics e @
              concat (map (\<lambda>dropReason.
                             case dropCounters dropReason of
                               None \<Rightarrow> []
                             | Some count \<Rightarrow>
                                 [ConstMetric ''datapathDrops'' CounterValue (OfUint64 count)
                                    [SystemID e, dropReason]])
                          dropTypes)\<rparr>, w1))"

definition basicPmdMetrics :: "string \<Rightarrow> PmdPerformanceMetrics \<Rightarrow> Metric list" where
  "basicPmdMetrics sid pmd =
     (let labels = [sid, PmdPerformanceMetrics.PmdID pmd, PmdPerformanceMetrics.NumaID pmd]
      in [ ConstMetric ''pmdCyclesPerIteration'' GaugeValue
             (Float (PmdPerformanceMetrics.CyclesPerIteration pmd)) labels,
           ConstMetric ''pmdPacketsPerIteration'' GaugeValue
             (Float (PmdPerformanceMetrics.PacketsPerIteration pmd)) labels,
           ConstMetric ''pmdCyclesPerPacket'' GaugeValue
             (Float (PmdPerformanceMetrics.CyclesPerPacket pmd)) labels,
           ConstMetric ''pmdPacketsPerBatch'' GaugeValue
             (Float (PmdPerformanceMetrics.PacketsPerBatch pmd)) labels,
           ConstMetric ''pmdMaxVhostQueueLength'' GaugeValue
             (OfUint64 (PmdPerformanceMetrics.MaxVhostQueueLength pmd)) labels,
           ConstMetric ''pmdUpcalls'' CounterValue
             (OfUint64 (PmdPerformanceMetrics.Upcalls pmd)) labels,
           ConstMetric ''pmdUpcallCycles'' CounterValue
             (OfUint64 (PmdPerformanceMetrics.UpcallCycles pmd)) labels,
           ConstMetric ''vhostTxRetries'' CounterValue
             (OfUint64 (PmdPerformanceMetrics.TxRetries pmd)) labels,
           ConstMetric ''vhostTxContention'' CounterValue
             (OfUint64 (PmdPerformanceMetrics.TxContention pmd)) labels,
           ConstMetric ''vhostTxIrqs'' CounterValue
             (OfUint64 (PmdPerformanceMetrics.TxIrqs pmd)) labels,
           ConstMetric ''pmdIterations'' CounterValue
             (OfUint64 (PmdPerformanceMetrics.Iterations pmd)) labels,
           ConstMetric ''pmdBusyCycles'' CounterValue
             (OfUint64 (PmdPerformanceMetrics.BusyCycles pmd)) labels ])"

definition collectBasicPMDMetrics ::
  "float_ops \<Rightarrow> sources \<Rightarrow> Exporter \<times> world \<Rightarrow> Exporter \<times> world" where
  "collectBasicPMDMetrics ops src = (\<lambda>(e, w).
     case GetPmdPerfMetrics ops src w of
       ((pmdMetrics, Some err), w1) \<Rightarrow> (e, w1)
     | ((pmdMetrics, None), w1) \<Rightarrow>
         (e\<lparr>metrics := metrics e @ concat (map (basicPmdMetrics (SystemID e)) pmdMetrics)\<rparr>,
          w1))"

text \<open>
  The first metric \<open>CollectPMDMetrics\<close> builds for a record is the only one with a
  \<open>core_id\<close> label next to \<open>pmd_id\<close>. The metrics that follow it in the loop body carry the
  labels system id, \<open>PmdID\<close>, \<open>NumaID\<close>; some of them read fields (\<open>EMCHitRate\<close>,
  \<open>MegaflowHits\<close> and others) that the struct under \<open>src/\<close> does not declare, so the rest
  of the loop body is the parameter \<open>others\<close>.
\<close>

definition pmdCPUUtilizationMetric :: "string \<Rightarrow> EnhancedPmdMetrics \<Rightarrow> Metric" where
  "pmdCPUUtilizationMetric sid pmd =
     ConstMetric ''pmdCPUUtilization'' GaugeValue (Percent (CPUUtilization pmd))
       [sid, PmdID pmd, NumaID pmd, CoreID pmd]"

definition CollectPMDMetrics ::
  "float_ops \<Rightarrow> sources \<Rightarrow> (string \<Rightarrow> EnhancedPmdMetrics \<Rightarrow> Metric list)
     \<Rightarrow> Exporter \<times> world \<Rightarrow> Exporter \<times> world" where
  "CollectPMDMetrics ops src others = (\<lambda>(e, w).
     case GetEnhancedPmdMetrics ops src w of
       ((enhancedMetrics, Some err), w1) \<Rightarrow> collectBasicPMDMetrics ops src (e, w1)
     | ((enhancedMetrics, None), w1) \<Rightarrow>
         if enhancedMetrics = [] then (e, w1)
         else collectDropCounters src
                (e\<lparr>metrics := metrics e @
                     concat (map (\<lambda>pmd. pmdCPUUtilizationMetric (SystemID e) pmd
                                          # others (SystemID e) pmd)
                                 enhancedMetrics)\<rparr>, w1))"

subsection \<open>The clock (package time)\<close>

text \<open>
  A reading of \<open>time.Now()\<close>: seconds since the Unix epoch and nanoseconds within the
  second. A \<open>Duration\<close> is an \<open>int64\<close> count of nanoseconds; \<open>Add\<close> follows the library,
  with Go's division that truncates towards zero.
\<close>

record Time =
  unix_sec :: int
  nanos :: int

definition Unix :: "Time \<Rightarrow> int" where
  "Unix t = unix_sec t"

definition Second :: int where
  "Second = 1000000000"

definition quot :: "int \<Rightarrow> int \<Rightarrow> int" where
  "quot a b = sgn a * sgn b * (\<bar>a\<bar> div \<bar>b\<bar>)"

definition rem :: "int \<Rightarrow> int \<Rightarrow> int" where
  "rem a b = a - b * quot a b"

definition Add :: "Time \<Rightarrow> int \<Rightarrow> Time" where
  "Add t d =
     (let dsec = quot d 1000000000; nsec = nanos t + rem d 1000000000
      in if nsec \<ge> 1000000000 then \<lparr> unix_sec = unix_sec t + (dsec + 1), nanos = nsec - 1000000000 \<rparr>
         else if nsec < 0 then \<lparr> unix_sec = unix_sec t + (dsec - 1), nanos = nsec + 1000000000 \<rparr>
         else \<lparr> unix_sec = unix_sec t + dsec, nanos = nsec \<rparr>)"

subsection \<open>GatherMetrics\<close>

text \<open>
  \<open>now1\<close> and \<open>now2\<close> are the two readings of the clock, at the rate-limit check and at the
  end of the rebuild. Between clearing the slice and \<open>CollectPMDMetrics\<close> the source runs
  the sub-collections that query the OVSDB client (a library outside the repository)
  and appends their metrics and the metrics \<open>up\<close>, \<open>info\<close>, \<open>requestErrors\<close> and
  \<open>requestsTotal\<close>; a sub-collection that fails calls \<open>IncrementErrorCounter\<close> and the next
  one runs. This part is the parameter \<open>db\<close>, a function on the exporter and the world.
\<close>

definition GatherMetrics ::
  "float_ops \<Rightarrow> sources \<Rightarrow> (string \<Rightarrow> EnhancedPmdMetrics \<Rightarrow> Metric list)
     \<Rightarrow> (Exporter \<times> world \<Rightarrow> Exporter \<times> world) \<Rightarrow> Time \<Rightarrow> Time
     \<Rightarrow> Exporter \<times> world \<Rightarrow> Exporter \<times> world" where
  "GatherMetrics ops src others db now1 now2 = (\<lambda>(e, w).
     if Unix now1 < nextCollectionTicker e then (e, w)
     else
       (case CollectPMDMetrics ops src others (db (e\<lparr>metrics := []\<rparr>, w)) of
          (e1, w1) \<Rightarrow>
            (let e2 = e1\<lparr>metrics := metrics e1 @
                          [ConstMetric ''nextPoll'' GaugeValue
                             (OfInt64 (nextCollectionTicker e1)) [SystemID e1]]\<rparr>
             in (e2\<lparr>nextCollectionTicker :=
                       Unix (Add now2 (int64 (pollInterval e2 * Second)))\<rparr>, w1))))"

section \<open>Notions used to state the properties\<close>

text \<open>
  The thread headers of a list of lines: for each line the header pattern matches, in
  order, the two capture groups (numa id, core id) of its leftmost match.
\<close>

fun headers :: "string list \<Rightarrow> (string \<times> string) list" where
  "headers [] = []"
| "headers (l # ls) =
     (case FindStringSubmatch pmdHeaderRe l of
        None \<Rightarrow> headers ls
      | Some ms \<Rightarrow> (ms ! 1, ms ! 2) # headers ls)"

text \<open>The record under construction, as a list of at most one element.\<close>

fun pending :: "'a option \<Rightarrow> 'a list" where
  "pending None = []"
| "pending (Some m) = [m]"


text \<open>An update \<open>u\<close> leaves the projection \<open>f\<close> of a record alone.\<close>

definition preserves :: "('a \<Rightarrow> 'b) \<Rightarrow> ('a \<Rightarrow> 'a) \<Rightarrow> bool" where
  "preserves f u = (\<forall>m. f (u m) = f m)"

definition enh_ids :: "EnhancedPmdMetrics \<Rightarrow> string \<times> string \<times> string" where
  "enh_ids m = (NumaID m, PmdID m, CoreID m)"

definition enh_totals :: "EnhancedPmdMetrics \<Rightarrow> uint64 \<times> uint64" where
  "enh_totals m = (TotalCycles m, TotalPackets m)"

definition perf_ids :: "PmdPerformanceMetrics \<Rightarrow> string \<times> string" where
  "perf_ids m = (PmdPerformanceMetrics.NumaID m, PmdPerformanceMetrics.PmdID m)"

text \<open>
  A drop reason is observed in a text when some scanned line, trimmed, matches the
  coverage pattern with that name in front and a count that fits 64 bits.
\<close>

definition observed :: "string \<Rightarrow> string \<Rightarrow> bool" where
  "observed out k =
     list_ex (\<lambda>l. case FindStringSubmatch coverageRe (TrimSpace l) of
                    None \<Rightarrow> False
                  | Some ms \<Rightarrow> ms ! 1 = k \<and> ParseUint (ms ! 2) \<noteq> None)
             (scanLines out)"

section \<open>Sample inputs\<close>

text \<open>Two thread blocks, the first with one field line.\<close>

definition two_threads :: string where
  "two_threads =
     ''pmd thread numa_id 0 core_id 2:\<newline>  iterations: 100 (1.0 us/it)\<newline>pmd thread numa_id 1 core_id 4:\<newline>''"

text \<open>A line of 65536 bytes, then a thread header.\<close>

definition overlong_then_header :: string where
  "overlong_then_header =
     replicate 65536 (CHR ''x'') @ ''\<newline>pmd thread numa_id 0 core_id 1:''"

text \<open>The text of the repository's test \<open>TestParsePmdPerfOutputInvalid\<close>.\<close>

definition not_pmd_output :: string where
  "not_pmd_output = ''This is not valid PMD output\<newline>Some random text here''"


text \<open>Lines of the performance report, with values that binary64 holds exactly.\<close>

definition header_0_2 :: string where
  "header_0_2 = ''pmd thread numa_id 0 core_id 2:''"

definition header_1_4 :: string where
  "header_1_4 = ''pmd thread numa_id 1 core_id 4:''"

definition idle_line :: string where
  "idle_line = ''  idle cycles: 50.0% (2.0 Mcycles)''"

definition iter_line :: string where
  "iter_line = ''  iterations: 100 (1.0 us/it)''"

definition ppi_line :: string where
  "ppi_line = ''  pkts/it: 2.5''"

text \<open>Two thread blocks with the same three field lines.\<close>

definition two_full_threads :: string where
  "two_full_threads =
     ''pmd thread numa_id 0 core_id 2:\<newline>  idle cycles: 50.0% (2.0 Mcycles)\<newline>  iterations: 100 (1.0 us/it)\<newline>  pkts/it: 2.5\<newline>pmd thread numa_id 1 core_id 4:\<newline>  idle cycles: 50.0% (2.0 Mcycles)\<newline>  iterations: 100 (1.0 us/it)\<newline>  pkts/it: 2.5\<newline>''"

text \<open>Outcomes of the commands: every command exits with status 2; every command is
  killed; only \<open>coverage/show\<close> works; the two PMD commands work and report different
  iteration counts for thread 2.\<close>

definition absent_src :: sources where
  "absent_src n cmd = Inl ''exit status 2''"

definition killed_src :: sources where
  "killed_src n cmd = Inl ''signal: killed''"

definition coverage_src :: sources where
  "coverage_src n cmd =
     (if cmd = [''ovs-appctl'', ''coverage/show'']
      then Inr ''datapath_drop_meter 42\<newline>other_counter 7\<newline>''
      else Inl ''exit status 2'')"

definition stats_differ_src :: sources where
  "stats_differ_src n cmd =
     (if cmd = [''ovs-appctl'', ''dpif-netdev/pmd-perf-show''] then Inr two_threads
      else if cmd = [''ovs-appctl'', ''dpif-netdev/pmd-stats-show'']
      then Inr ''pmd thread numa_id 0 core_id 2:\<newline>  iterations: 999 (1.0 us/it)\<newline>''
      else Inl ''exit status 2'')"

text \<open>The performance report is there, every other command exits with status 2.\<close>

definition drops_fail_src :: sources where
  "drops_fail_src n cmd =
     (if cmd = [''ovs-appctl'', ''dpif-netdev/pmd-perf-show''] then Inr two_threads
      else Inl ''exit status 2'')"

definition w0 :: world where
  "w0 = \<lparr> invocations = [] \<rparr>"

definition e0 :: Exporter where
  "e0 = \<lparr> SystemID = ''sys'', pollInterval = 15, errors = 0, totalRequests = 0,
          nextCollectionTicker = 0, metrics = [] \<rparr>"

definition no_others :: "string \<Rightarrow> EnhancedPmdMetrics \<Rightarrow> Metric list" where
  "no_others sid pmd = []"

definition no_db :: "Exporter \<times> world \<Rightarrow> Exporter \<times> world" where
  "no_db s = s"

definition t0 :: Time where
  "t0 = \<lparr> unix_sec = 1700000000, nanos = 0 \<rparr>"

definition t1 :: Time where
  "t1 = \<lparr> unix_sec = 1700000001, nanos = 0 \<rparr>"

section \<open>Identity of the records\<close>

lemma preserves_on_match: "(\<And>ms. preserves f (g ms)) \<Longrightarrow> preserves f (on_match re line g)"
  by (simp add: preserves_def on_match_def split: option.splits)

lemma preserves_with_uint: "(\<And>v. preserves f (g v)) \<Longrightarrow> preserves f (with_uint s g)"
  by (simp add: preserves_def with_uint_def split: option.splits)

lemma preserves_with_float: "(\<And>v. preserves f (g v)) \<Longrightarrow> preserves f (with_float ops s g)"
  by (simp add: preserves_def with_float_def split: option.splits)

lemma preserves_fold: "list_all (preserves f) us \<Longrightarrow> f (fold (\<lambda>u x. u x) us m) = f m"
  by (induction us arbitrary: m) (simp_all add: preserves_def)

lemma preserves_apply_in_order: "list_all (preserves f) us \<Longrightarrow> preserves f (apply_in_order us)"
  by (simp add: preserves_def apply_in_order_def preserves_fold)

lemma preserves_Nil: "preserves f (apply_in_order [])"
  by (simp add: preserves_def apply_in_order_def)

lemma preserves_Cons:
  "preserves f u \<Longrightarrow> preserves f (apply_in_order us) \<Longrightarrow> preserves f (apply_in_order (u # us))"
  by (simp add: preserves_def apply_in_order_def)

lemmas preserves_intros =
  preserves_Cons preserves_Nil preserves_on_match preserves_with_uint preserves_with_float

lemma enh_fields_ids: "enh_ids (enh_fields ops line m) = enh_ids m"
proof -
  have "preserves enh_ids (enh_fields ops line)"
    unfolding enh_fields_def
    by (intro preserves_intros) (simp_all add: preserves_def enh_ids_def)
  then show ?thesis by (simp add: preserves_def)
qed

lemma perf_fields_ids: "perf_ids (perf_fields ops line m) = perf_ids m"
proof -
  have "preserves perf_ids (perf_fields ops line)"
    unfolding perf_fields_def
    by (intro preserves_intros) (simp_all add: preserves_def perf_ids_def)
  then show ?thesis by (simp add: preserves_def)
qed

lemma histogram_entry_ids: "enh_ids (histogram_entry h line m) = enh_ids m"
proof (cases h)
  case None then show ?thesis by (simp add: histogram_entry_def)
next
  case (Some r)
  have "preserves enh_ids (on_match histogramEntryRe line (\<lambda>ms. with_uint (ms ! 2) (\<lambda>v. histogram_store r (ms ! 1) v)))"
    by (intro preserves_on_match preserves_with_uint) (cases r; simp add: preserves_def enh_ids_def)
  with Some show ?thesis by (simp add: histogram_entry_def preserves_def)
qed

lemma derive_totals_ids: "enh_ids (derive_totals ops m) = enh_ids m"
  by (simp add: derive_totals_def enh_ids_def Let_def)


text \<open>
  The loop of the enhanced parser, seen through a projection \<open>f\<close> of the records that the
  field patterns and the histogram entries leave alone: each header line adds the
  projection of a new record, and nothing else changes.
\<close>

lemma enh_loop_projection:
  assumes fields: "\<And>line m. f (enh_fields ops line m) = f m"
    and entry: "\<And>h line m. f (histogram_entry h line m) = f m"
  shows "enh_loop ops acc cur h ls = (acc', cur') \<Longrightarrow>
   map f (acc' @ pending cur') =
   map f (acc @ pending cur)
   @ map (\<lambda>(numa, core). f (newEnhancedPmdMetrics numa core)) (headers ls)"
proof (induction ls arbitrary: acc cur h)
  case Nil
  then show ?case by simp
next
  case (Cons line rest)
  show ?case
  proof (cases "FindStringSubmatch pmdHeaderRe line")
    case (Some ms)
    with Cons.prems have
      "enh_loop ops (acc @ pending cur) (Some (newEnhancedPmdMetrics (ms ! 1) (ms ! 2))) None rest
         = (acc', cur')"
      by (cases cur) simp_all
    from Cons.IH [OF this] Some show ?thesis by simp
  next
    case None
    show ?thesis
    proof (cases cur)
      case cur_None: None
      with None Cons.prems have "enh_loop ops acc None h rest = (acc', cur')" by simp
      from Cons.IH [OF this] None cur_None show ?thesis by simp
    next
      case (Some m)
      show ?thesis
      proof (cases "FindStringSubmatch histogramRe line")
        case hist_None: None
        with None Some Cons.prems have
          "enh_loop ops acc (Some (histogram_entry h line (enh_fields ops line m))) h rest
             = (acc', cur')"
          by simp
        from Cons.IH [OF this] None Some show ?thesis
          by (simp add: fields entry)
      next
        case (Some hs)
        with None \<open>cur = Some m\<close> Cons.prems have
          "enh_loop ops acc (Some (enh_fields ops line m))
             (select_histogram (ToLower (hs ! 1))) rest = (acc', cur')"
          by simp
        from Cons.IH [OF this] None \<open>cur = Some m\<close> show ?thesis
          by (simp add: fields)
      qed
    qed
  qed
qed

lemma enh_loop_ids:
  "enh_loop ops acc cur h ls = (acc', cur') \<Longrightarrow>
   map enh_ids (acc' @ pending cur') =
   map enh_ids (acc @ pending cur) @ map (\<lambda>(numa, core). (numa, core, core)) (headers ls)"
proof -
  assume "enh_loop ops acc cur h ls = (acc', cur')"
  from enh_loop_projection [of enh_ids, OF enh_fields_ids histogram_entry_ids this]
  show ?thesis by (simp add: enh_ids_def newEnhancedPmdMetrics_def split_def)
qed

lemma perf_loop_ids:
  "perf_loop ops acc cur ls = (acc', cur') \<Longrightarrow>
   map perf_ids (acc' @ pending cur') = map perf_ids (acc @ pending cur) @ headers ls"
proof (induction ls arbitrary: acc cur)
  case Nil
  then show ?case by simp
next
  case (Cons line rest)
  show ?case
  proof (cases "FindStringSubmatch pmdHeaderRe line")
    case (Some ms)
    with Cons.prems have
      "perf_loop ops (acc @ pending cur)
         (Some (zeroPmdPerformanceMetrics\<lparr>PmdPerformanceMetrics.NumaID := ms ! 1,
                                          PmdPerformanceMetrics.PmdID := ms ! 2\<rparr>)) rest
         = (acc', cur')"
      by (cases cur) simp_all
    from Cons.IH [OF this] Some show ?thesis
      by (simp add: perf_ids_def)
  next
    case None
    show ?thesis
    proof (cases cur)
      case cur_None: None
      with None Cons.prems have "perf_loop ops acc None rest = (acc', cur')" by simp
      from Cons.IH [OF this] None cur_None show ?thesis by simp
    next
      case (Some m)
      with None Cons.prems have
        "perf_loop ops acc (Some (perf_fields ops line m)) rest = (acc', cur')"
        by simp
      from Cons.IH [OF this] None Some show ?thesis
        by (simp add: perf_fields_ids)
    qed
  qed
qed

lemma parseEnhancedPmdOutput_ids:
  "map enh_ids (parseEnhancedPmdOutput ops out) =
   map (\<lambda>(numa, core). (numa, core, core)) (headers (scanLines out))"
proof -
  obtain acc' cur' where l: "enh_loop ops [] None None (scanLines out) = (acc', cur')"
    by (cases "enh_loop ops [] None None (scanLines out)")
  have "map enh_ids (parseEnhancedPmdOutput ops out) = map enh_ids (acc' @ pending cur')"
    using l by (cases cur') (simp_all add: parseEnhancedPmdOutput_def derive_totals_ids)
  with enh_loop_ids [OF l] show ?thesis by simp
qed

lemma parsePmdPerfOutput_ids:
  "map perf_ids (fst (parsePmdPerfOutput ops out)) = headers (scanLines out)"
proof -
  obtain acc' cur' where l: "perf_loop ops [] None (scanLines out) = (acc', cur')"
    by (cases "perf_loop ops [] None (scanLines out)")
  have "map perf_ids (fst (parsePmdPerfOutput ops out)) = map perf_ids (acc' @ pending cur')"
    using l by (cases cur') (simp_all add: parsePmdPerfOutput_def)
  with perf_loop_ids [OF l] show ?thesis by simp
qed

lemma parsePmdPerfOutput_no_error: "snd (parsePmdPerfOutput ops out) = None"
  by (simp add: parsePmdPerfOutput_def split: prod.splits option.splits)

lemma scanLines_all:
  "\<forall>l \<in> set (rawLines out). length l < MaxScanTokenSize \<Longrightarrow> scanLines out = textLines out"
proof -
  assume "\<forall>l \<in> set (rawLines out). length l < MaxScanTokenSize"
  then have "takeWhile (\<lambda>l. length l < MaxScanTokenSize) (rawLines out) = rawLines out"
    by (simp add: takeWhile_eq_all_conv)
  then show ?thesis unfolding scanLines_def textLines_def by (rule arg_cong)
qed

lemma set_scanLines: "set (scanLines out) \<subseteq> set (textLines out)"
  unfolding scanLines_def textLines_def by (auto dest: set_takeWhileD)

lemma headers_Nil:
  "\<forall>l \<in> set ls. FindStringSubmatch pmdHeaderRe l = None \<Longrightarrow> headers ls = []"
  by (induction ls) simp_all

lemma splitLines_append:
  "CHR 0x0A \<notin> set xs \<Longrightarrow>
   splitLines cur (xs @ CHR 0x0A # rest) = (cur @ xs) # splitLines [] rest"
  by (induction xs arbitrary: cur) auto

lemma header_not_in_x_run: "find_from pmdHeaderRe b (replicate n (CHR ''x'')) = None"
  by (induction n arbitrary: b) (simp_all add: pmdHeaderRe_def)

lemma two_threads_headers: "headers (textLines two_threads) = [(''0'', ''2''), (''1'', ''4'')]"
  by (simp add: two_threads_def textLines_def rawLines_def dropCR_def FindStringSubmatch_def
      pmdHeaderRe_def is_digit_def)

text \<open>
  C1, as amended. For every text whose lines are all shorter than \<open>MaxScanTokenSize\<close>
  (65536) bytes, and every choice of the floating-point operations: both parsers return
  one record for each line that matches the thread header, in the order of these lines,
  and the record of the \<open>i\<close>-th header line has the first capture group of that line as
  \<open>NumaID\<close> and the second as \<open>PmdID\<close> (and as \<open>CoreID\<close>, in the enhanced parser). The lists
  on both sides have the same length, so the number of records is the number of header
  lines.
\<close>

theorem record_per_header:
  assumes "\<forall>l \<in> set (rawLines out). length l < MaxScanTokenSize"
  shows "map (\<lambda>m. (NumaID m, PmdID m, CoreID m)) (parseEnhancedPmdOutput ops out) =
           map (\<lambda>(numa, core). (numa, core, core)) (headers (textLines out))
         \<and> map (\<lambda>m. (PmdPerformanceMetrics.NumaID m, PmdPerformanceMetrics.PmdID m))
               (fst (parsePmdPerfOutput ops out)) = headers (textLines out)"
  using parseEnhancedPmdOutput_ids [of ops out] parsePmdPerfOutput_ids [of ops out]
    scanLines_all [OF assms]
  by (simp add: enh_ids_def [abs_def] perf_ids_def [abs_def])

theorem record_per_header_witness:
  "list_all (\<lambda>l. length l < MaxScanTokenSize) (rawLines two_threads)
   \<and> map (\<lambda>m. (NumaID m, PmdID m, CoreID m)) (parseEnhancedPmdOutput exact_floats two_threads)
       = [(''0'', ''2'', ''2''), (''1'', ''4'', ''4'')]
   \<and> map (\<lambda>m. (PmdPerformanceMetrics.NumaID m, PmdPerformanceMetrics.PmdID m))
         (fst (parsePmdPerfOutput exact_floats two_threads)) = [(''0'', ''2''), (''1'', ''4'')]"
proof -
  have h: "\<forall>l \<in> set (rawLines two_threads). length l < MaxScanTokenSize"
    by (simp add: two_threads_def rawLines_def MaxScanTokenSize_def)
  from record_per_header [OF h, of exact_floats] h show ?thesis
    by (simp add: two_threads_headers list_all_iff)
qed

text \<open>
  C1 as stated, for every text, fails: in \<open>overlong_then_header\<close> one line matches the
  thread header, and both parsers return no record, because the scanner stops at the
  line of 65536 bytes in front of it.
\<close>

theorem record_per_header_overlong_line:
  "headers (textLines overlong_then_header) = [(''0'', ''1'')]
   \<and> parseEnhancedPmdOutput exact_floats overlong_then_header = []
   \<and> fst (parsePmdPerfOutput exact_floats overlong_then_header) = []"
proof -
  have raw: "rawLines overlong_then_header =
               [replicate 65536 (CHR ''x''), ''pmd thread numa_id 0 core_id 1:'']"
    unfolding rawLines_def overlong_then_header_def
    by (simp add: splitLines_append [where cur = "[]", simplified])
  have "scanLines overlong_then_header = []"
    by (simp add: scanLines_def raw MaxScanTokenSize_def)
  then have "parseEnhancedPmdOutput exact_floats overlong_then_header = []"
    "fst (parsePmdPerfOutput exact_floats overlong_then_header) = []"
    by (simp_all add: parseEnhancedPmdOutput_def parsePmdPerfOutput_def)
  moreover have "dropCR (replicate 65536 (CHR ''x'')) = replicate 65536 (CHR ''x'')"
    by (simp add: dropCR_def)
  then have "headers (textLines overlong_then_header) = [(''0'', ''1'')]"
    by (simp add: textLines_def raw header_not_in_x_run FindStringSubmatch_def)
       (simp add: dropCR_def pmdHeaderRe_def is_digit_def)
  ultimately show ?thesis by simp
qed

text \<open>
  C6. If the text is empty, or no line of it matches the thread header, then
  \<open>parseEnhancedPmdOutput\<close> returns the empty list and \<open>parsePmdPerfOutput\<close> returns the
  empty list with a nil error.
\<close>

theorem no_header_no_record:
  assumes "out = [] \<or> (\<forall>l \<in> set (textLines out). FindStringSubmatch pmdHeaderRe l = None)"
  shows "parseEnhancedPmdOutput ops out = [] \<and> parsePmdPerfOutput ops out = ([], None)"
proof -
  have "\<forall>l \<in> set (textLines out). FindStringSubmatch pmdHeaderRe l = None"
    using assms by (auto simp: textLines_def rawLines_def)
  then have "headers (scanLines out) = []"
    using set_scanLines [of out] by (intro headers_Nil) blast
  with parseEnhancedPmdOutput_ids [of ops out] parsePmdPerfOutput_ids [of ops out]
  have "parseEnhancedPmdOutput ops out = []" "fst (parsePmdPerfOutput ops out) = []"
    by simp_all
  with parsePmdPerfOutput_no_error [of ops out] show ?thesis
    by (simp add: prod_eq_iff)
qed

theorem no_header_no_record_witness:
  "list_all (\<lambda>l. FindStringSubmatch pmdHeaderRe l = None) (textLines not_pmd_output)
   \<and> parseEnhancedPmdOutput exact_floats not_pmd_output = []
   \<and> parsePmdPerfOutput exact_floats not_pmd_output = ([], None)"
proof -
  have h: "not_pmd_output = [] \<or>
     (\<forall>l \<in> set (textLines not_pmd_output). FindStringSubmatch pmdHeaderRe l = None)"
    by (simp add: not_pmd_output_def textLines_def rawLines_def dropCR_def
        FindStringSubmatch_def pmdHeaderRe_def)
  then have "list_all (\<lambda>l. FindStringSubmatch pmdHeaderRe l = None) (textLines not_pmd_output)"
    by (simp add: list_all_iff not_pmd_output_def)
  with no_header_no_record [OF h, of exact_floats] show ?thesis by simp
qed

text \<open>
  C10. Every record that \<open>parseEnhancedPmdOutput\<close> returns has \<open>PmdID = CoreID\<close>, and so
  the one metric built from a record with both labels, \<open>pmdCPUUtilization\<close>, has equal
  values for \<open>pmd_id\<close> (label 1) and \<open>core_id\<close> (label 3).
\<close>

theorem pmd_id_is_core_id:
  "\<forall>m \<in> set (parseEnhancedPmdOutput ops out).
     PmdID m = CoreID m \<and>
     (case pmdCPUUtilizationMetric sid m of ConstMetric d k v labels \<Rightarrow> labels ! 1 = labels ! 3)"
proof
  fix m assume "m \<in> set (parseEnhancedPmdOutput ops out)"
  then have "enh_ids m \<in> set (map enh_ids (parseEnhancedPmdOutput ops out))" by simp
  then have "PmdID m = CoreID m"
    unfolding parseEnhancedPmdOutput_ids by (auto simp: enh_ids_def)
  then show "PmdID m = CoreID m \<and>
     (case pmdCPUUtilizationMetric sid m of ConstMetric d k v labels \<Rightarrow> labels ! 1 = labels ! 3)"
    by (simp add: pmdCPUUtilizationMetric_def)
qed

theorem pmd_id_is_core_id_witness:
  "hd (parseEnhancedPmdOutput exact_floats two_threads)
     \<in> set (parseEnhancedPmdOutput exact_floats two_threads)
   \<and> PmdID (hd (parseEnhancedPmdOutput exact_floats two_threads)) = ''2''
   \<and> CoreID (hd (parseEnhancedPmdOutput exact_floats two_threads)) = ''2''"
proof -
  have scan: "scanLines two_threads = textLines two_threads"
    by (rule scanLines_all) (simp add: two_threads_def rawLines_def MaxScanTokenSize_def)
  have ids: "map enh_ids (parseEnhancedPmdOutput exact_floats two_threads)
               = [(''0'', ''2'', ''2''), (''1'', ''4'', ''4'')]"
    by (simp add: parseEnhancedPmdOutput_ids scan two_threads_headers)
  then obtain a b where ab: "parseEnhancedPmdOutput exact_floats two_threads = [a, b]"
    by (auto simp: map_eq_Cons_conv)
  with ids have "PmdID a = ''2''" by (simp add: enh_ids_def)
  moreover have "a \<in> set (parseEnhancedPmdOutput exact_floats two_threads)"
    using ab by simp
  moreover from pmd_id_is_core_id [of exact_floats two_threads "[]"] this
  have "PmdID a = CoreID a" by blast
  ultimately show ?thesis using ab by simp
qed

text \<open>
  No pattern of the loop writes \<open>TotalCycles\<close> or \<open>TotalPackets\<close>; only the block after
  the loop does, for the record it appends. So every record but the last one is returned
  with both totals at zero, whatever the text says.
\<close>

lemma enh_fields_totals: "enh_totals (enh_fields ops line m) = enh_totals m"
proof -
  have "preserves enh_totals (enh_fields ops line)"
    unfolding enh_fields_def
    by (intro preserves_intros) (simp_all add: preserves_def enh_totals_def)
  then show ?thesis by (simp add: preserves_def)
qed

lemma histogram_entry_totals: "enh_totals (histogram_entry h line m) = enh_totals m"
proof (cases h)
  case None
  then show ?thesis by (simp add: histogram_entry_def)
next
  case (Some r)
  have "preserves enh_totals
          (on_match histogramEntryRe line
             (\<lambda>ms. with_uint (ms ! 2) (\<lambda>v. histogram_store r (ms ! 1) v)))"
    by (intro preserves_on_match preserves_with_uint)
       (cases r; simp add: preserves_def enh_totals_def)
  with Some show ?thesis by (simp add: histogram_entry_def preserves_def)
qed

lemma totals_zero_before_last:
  "list_all (\<lambda>m. TotalCycles m = 0 \<and> TotalPackets m = 0)
     (butlast (parseEnhancedPmdOutput ops out))"
proof -
  obtain acc' cur' where l: "enh_loop ops [] None None (scanLines out) = (acc', cur')"
    by (cases "enh_loop ops [] None None (scanLines out)")
  from enh_loop_projection [of enh_totals, OF enh_fields_totals histogram_entry_totals l]
  have "map enh_totals (acc' @ pending cur')
          = map (\<lambda>(numa, core). (0, 0)) (headers (scanLines out))"
    by (simp add: enh_totals_def newEnhancedPmdMetrics_def)
  then have "list_all (\<lambda>m. enh_totals m = (0, 0)) (acc' @ pending cur')"
    by (auto simp: list_all_iff dest!: arg_cong [where f = set])
  then have z: "list_all (\<lambda>m. TotalCycles m = 0 \<and> TotalPackets m = 0) acc'"
    by (simp add: enh_totals_def)
  have "set (butlast (parseEnhancedPmdOutput ops out)) \<subseteq> set acc'"
    using l by (cases cur') (auto simp: parseEnhancedPmdOutput_def dest: in_set_butlastD)
  with z show ?thesis
    by (auto simp: list_all_iff)
qed

text \<open>What each pattern of the enhanced parser finds on the sample lines.\<close>

lemmas enh_pattern_defs =
      cpuUtilRe_def idleCyclesRe_def busyCyclesRe_def iterationsRe_def sleepIterRe_def
      cyclesPerItRe_def pktsPerItRe_def cyclesPerPktRe_def pktsPerBatchRe_def rxBatchRe_def
      rxPacketsRe_def txBatchRe_def txPacketsRe_def maxVhostQRe_def avgVhostQRe_def
      vhostFullRe_def upcallsRe_def avgUpcallRe_def txRetriesRe_def txContentionRe_def
      txIrqsRe_def exactHitRe_def maskedHitRe_def missRe_def lostRe_def suspiciousRe_def
      histogramRe_def pmdHeaderRe_def

lemma idle_line_patterns:
  "FindStringSubmatch cpuUtilRe idle_line = None"
  "FindStringSubmatch idleCyclesRe idle_line = Some [''idle cycles: 50.0% (2.0 Mcycles'', ''50.0'', ''2.0'']"
  "FindStringSubmatch busyCyclesRe idle_line = None"
  "FindStringSubmatch iterationsRe idle_line = None"
  "FindStringSubmatch sleepIterRe idle_line = None"
  "FindStringSubmatch cyclesPerItRe idle_line = None"
  "FindStringSubmatch pktsPerItRe idle_line = None"
  "FindStringSubmatch cyclesPerPktRe idle_line = None"
  "FindStringSubmatch pktsPerBatchRe idle_line = None"
  "FindStringSubmatch rxBatchRe idle_line = None"
  "FindStringSubmatch rxPacketsRe idle_line = None"
  "FindStringSubmatch txBatchRe idle_line = None"
  "FindStringSubmatch txPacketsRe idle_line = None"
  "FindStringSubmatch maxVhostQRe idle_line = None"
  "FindStringSubmatch avgVhostQRe idle_line = None"
  "FindStringSubmatch vhostFullRe idle_line = None"
  "FindStringSubmatch upcallsRe idle_line = None"
  "FindStringSubmatch avgUpcallRe idle_line = None"
  "FindStringSubmatch txRetriesRe idle_line = None"
  "FindStringSubmatch txContentionRe idle_line = None"
  "FindStringSubmatch txIrqsRe idle_line = None"
  "FindStringSubmatch exactHitRe idle_line = None"
  "FindStringSubmatch maskedHitRe idle_line = None"
  "FindStringSubmatch missRe idle_line = None"
  "FindStringSubmatch lostRe idle_line = None"
  "FindStringSubmatch suspiciousRe idle_line = None"
  "FindStringSubmatch histogramRe idle_line = None"
  "FindStringSubmatch pmdHeaderRe idle_line = None"
  by (simp_all add: idle_line_def FindStringSubmatch_def is_space_def is_digit_def is_word_def
      enh_pattern_defs)

lemma iter_line_patterns:
  "FindStringSubmatch cpuUtilRe iter_line = None"
  "FindStringSubmatch idleCyclesRe iter_line = None"
  "FindStringSubmatch busyCyclesRe iter_line = None"
  "FindStringSubmatch iterationsRe iter_line = Some [''iterations: 100 (1.0 us/it)'', ''100'', ''1.0'']"
  "FindStringSubmatch sleepIterRe iter_line = None"
  "FindStringSubmatch cyclesPerItRe iter_line = None"
  "FindStringSubmatch pktsPerItRe iter_line = None"
  "FindStringSubmatch cyclesPerPktRe iter_line = None"
  "FindStringSubmatch pktsPerBatchRe iter_line = None"
  "FindStringSubmatch rxBatchRe iter_line = None"
  "FindStringSubmatch rxPacketsRe iter_line = None"
  "FindStringSubmatch txBatchRe iter_line = None"
  "FindStringSubmatch txPacketsRe iter_line = None"
  "FindStringSubmatch maxVhostQRe iter_line = None"
  "FindStringSubmatch avgVhostQRe iter_line = None"
  "FindStringSubmatch vhostFullRe iter_line = None"
  "FindStringSubmatch upcallsRe iter_line = None"
  "FindStringSubmatch avgUpcallRe iter_line = None"
  "FindStringSubmatch txRetriesRe iter_line = None"
  "FindStringSubmatch txContentionRe iter_line = None"
  "FindStringSubmatch txIrqsRe iter_line = None"
  "FindStringSubmatch exactHitRe iter_line = None"
  "FindStringSubmatch maskedHitRe iter_line = None"
  "FindStringSubmatch missRe iter_line = None"
  "FindStringSubmatch lostRe iter_line = None"
  "FindStringSubmatch suspiciousRe iter_line = None"
  "FindStringSubmatch histogramRe iter_line = None"
  "FindStringSubmatch pmdHeaderRe iter_line = None"
  by (simp_all add: iter_line_def FindStringSubmatch_def is_space_def is_digit_def is_word_def
      enh_pattern_defs)

lemma ppi_line_patterns:
  "FindStringSubmatch cpuUtilRe ppi_line = None"
  "FindStringSubmatch idleCyclesRe ppi_line = None"
  "FindStringSubmatch busyCyclesRe ppi_line = None"
  "FindStringSubmatch iterationsRe ppi_line = None"
  "FindStringSubmatch sleepIterRe ppi_line = None"
  "FindStringSubmatch cyclesPerItRe ppi_line = None"
  "FindStringSubmatch pktsPerItRe ppi_line = Some [''pkts/it: 2.5'', ''2.5'']"
  "FindStringSubmatch cyclesPerPktRe ppi_line = None"
  "FindStringSubmatch pktsPerBatchRe ppi_line = None"
  "FindStringSubmatch rxBatchRe ppi_line = None"
  "FindStringSubmatch rxPacketsRe ppi_line = None"
  "FindStringSubmatch txBatchRe ppi_line = None"
  "FindStringSubmatch txPacketsRe ppi_line = None"
  "FindStringSubmatch maxVhostQRe ppi_line = None"
  "FindStringSubmatch avgVhostQRe ppi_line = None"
  "FindStringSubmatch vhostFullRe ppi_line = None"
  "FindStringSubmatch upcallsRe ppi_line = None"
  "FindStringSubmatch avgUpcallRe ppi_line = None"
  "FindStringSubmatch txRetriesRe ppi_line = None"
  "FindStringSubmatch txContentionRe ppi_line = None"
  "FindStringSubmatch txIrqsRe ppi_line = None"
  "FindStringSubmatch exactHitRe ppi_line = None"
  "FindStringSubmatch maskedHitRe ppi_line = None"
  "FindStringSubmatch missRe ppi_line = None"
  "FindStringSubmatch lostRe ppi_line = None"
  "FindStringSubmatch suspiciousRe ppi_line = None"
  "FindStringSubmatch histogramRe ppi_line = None"
  "FindStringSubmatch pmdHeaderRe ppi_line = None"
  by (simp_all add: ppi_line_def FindStringSubmatch_def is_space_def is_digit_def is_word_def
      enh_pattern_defs)

lemmas number_defs =
  with_uint_def with_float_def ParseUint_def digits_val_def digit_val_def is_digit_def
  exact_floats_def exact_ParseFloat_def

lemma idle_line_fields:
  "enh_fields exact_floats idle_line m = m\<lparr>IdleCycles := 2000000\<rparr>"
  by (simp add: enh_fields_def idle_line_patterns on_match_def apply_in_order_def number_defs)

lemma iter_line_fields:
  "enh_fields exact_floats iter_line m = m\<lparr>Iterations := 100, UsPerIteration := 1\<rparr>"
  by (simp add: enh_fields_def iter_line_patterns on_match_def apply_in_order_def number_defs)

lemma ppi_line_fields:
  "enh_fields exact_floats ppi_line m = m\<lparr>PacketsPerIteration := 5 / 2\<rparr>"
  by (simp add: enh_fields_def ppi_line_patterns on_match_def apply_in_order_def number_defs)

lemma header_patterns:
  "FindStringSubmatch pmdHeaderRe header_0_2 = Some [header_0_2, ''0'', ''2'']"
  "FindStringSubmatch pmdHeaderRe header_1_4 = Some [header_1_4, ''1'', ''4'']"
  by (simp_all add: header_0_2_def header_1_4_def FindStringSubmatch_def pmdHeaderRe_def
      is_digit_def)

lemma two_full_threads_lines:
  "scanLines two_full_threads =
     [header_0_2, idle_line, iter_line, ppi_line, header_1_4, idle_line, iter_line, ppi_line]"
  by (simp add: two_full_threads_def scanLines_def rawLines_def dropCR_def MaxScanTokenSize_def
      header_0_2_def header_1_4_def idle_line_def iter_line_def ppi_line_def)

lemma two_threads_lines: "scanLines two_threads = [header_0_2, iter_line, header_1_4]"
  by (simp add: two_threads_def scanLines_def rawLines_def dropCR_def MaxScanTokenSize_def
      header_0_2_def header_1_4_def iter_line_def)

lemma exact_floats_ops:
  "MulToUint64 exact_floats x y = word_of_int \<lfloor>x * y\<rfloor>"
  "FromUint64 exact_floats n = of_nat (unat n)"
  by (simp_all add: exact_floats_def)

lemmas sample_line_facts =
  header_patterns idle_line_patterns iter_line_patterns ppi_line_patterns
  idle_line_fields iter_line_fields ppi_line_fields histogram_entry_def

text \<open>
  C2. The claim holds for the last record only. In \<open>two_full_threads\<close> both thread blocks
  have the same lines: idle cycles 2.0 Mcycles, 100 iterations, 2.5 packets per
  iteration. The first record, finalized by the second header, is returned with
  \<open>TotalCycles = 0\<close> and \<open>TotalPackets = 0\<close>; the second, finalized at the end of the input,
  has \<open>TotalCycles = 2000000\<close> and \<open>TotalPackets = 250\<close>.
\<close>

theorem derived_totals_only_for_last_record:
  "map (\<lambda>m. (IdleCycles m, BusyCycles m, TotalCycles m, Iterations m, PacketsPerIteration m,
             TotalPackets m))
     (parseEnhancedPmdOutput exact_floats two_full_threads)
   = [(2000000, 0, 0, 100, 5 / 2, 0), (2000000, 0, 2000000, 100, 5 / 2, 250)]"
  by (simp add: parseEnhancedPmdOutput_def two_full_threads_lines sample_line_facts
      derive_totals_def newEnhancedPmdMetrics_def exact_floats_ops)

lemma two_threads_iterations:
  "map Iterations (parseEnhancedPmdOutput exact_floats two_threads) = [100, 0]"
  by (simp add: parseEnhancedPmdOutput_def two_threads_lines sample_line_facts
      derive_totals_def newEnhancedPmdMetrics_def exact_floats_ops)

text \<open>
  C4. When the primary command succeeds, \<open>GetEnhancedPmdMetrics\<close> returns the records
  parsed from its output, all fields as parsed, whatever the secondary command prints
  and whether it fails or not: \<open>enrichWithStats\<close> returns its first argument unchanged,
  so no field of a base record is overwritten (and none is filled).
\<close>

theorem enrichment_keeps_base:
  "(src (length (invocations w)) [''ovs-appctl'', ''dpif-netdev/pmd-perf-show''] = Inr out
      \<longrightarrow> fst (GetEnhancedPmdMetrics ops src w) = (parseEnhancedPmdOutput ops out, None))
   \<and> enrichWithStats base statsOutput = base"
  by (simp add: GetEnhancedPmdMetrics_def Output_def enrichWithStats_def Let_def
      split: sum.splits prod.splits)


theorem enrichment_keeps_base_witness:
  "fst (GetEnhancedPmdMetrics exact_floats stats_differ_src w0)
     = (parseEnhancedPmdOutput exact_floats two_threads, None)
   \<and> map Iterations (fst (fst (GetEnhancedPmdMetrics exact_floats stats_differ_src w0)))
       = [100, 0]"
  using enrichment_keeps_base [of stats_differ_src w0 two_threads exact_floats "[]" "[]"]
  by (simp add: stats_differ_src_def w0_def two_threads_iterations)

lemma Contains_prefix: "Contains (sub @ rest) sub"
proof (cases "sub @ rest")
  case Nil
  then show ?thesis by simp
next
  case (Cons a l)
  have "take (length sub) (sub @ rest) = sub" by simp
  with Cons have "Contains (a # l) sub" by simp
  with Cons show ?thesis by simp
qed

text \<open>
  C5. The primary command fails with the error message \<open>err\<close>. If the message contains
  \<open>exit status\<close>, as the message \<open>exit status N\<close> of a command that exited with a non-zero
  status does, both \<open>GetEnhancedPmdMetrics\<close> and \<open>GetPmdPerfMetrics\<close> return the empty list
  and a nil error. If it does not, both return a non-nil error that wraps the message.
  When the command succeeds the error is nil.
\<close>

theorem feature_absent:
  "(src (length (invocations w)) [''ovs-appctl'', ''dpif-netdev/pmd-perf-show''] = Inl err
      \<and> Contains err ''exit status'' \<longrightarrow>
        fst (GetEnhancedPmdMetrics ops src w) = ([], None)
        \<and> fst (GetPmdPerfMetrics ops src w) = ([], None))
   \<and> (src (length (invocations w)) [''ovs-appctl'', ''dpif-netdev/pmd-perf-show''] = Inl err
      \<and> \<not> Contains err ''exit status'' \<longrightarrow>
        fst (GetEnhancedPmdMetrics ops src w)
          = ([], Some (''failed to execute pmd-perf-show: '' @ err))
        \<and> fst (GetPmdPerfMetrics ops src w)
          = ([], Some (''failed to execute pmd-perf-show: '' @ err)))
   \<and> (src (length (invocations w)) [''ovs-appctl'', ''dpif-netdev/pmd-perf-show''] = Inr out
      \<longrightarrow> snd (fst (GetEnhancedPmdMetrics ops src w)) = None
        \<and> snd (fst (GetPmdPerfMetrics ops src w)) = None)
   \<and> Contains (''exit status '' @ code) ''exit status''"
proof -
  have "Contains (''exit status'' @ (CHR '' '' # code)) ''exit status''"
    by (rule Contains_prefix)
  then have "Contains (''exit status '' @ code) ''exit status''" by simp
  then show ?thesis
    by (simp add: GetEnhancedPmdMetrics_def GetPmdPerfMetrics_def Output_def
        parsePmdPerfOutput_no_error enrichWithStats_def Let_def split: sum.splits prod.splits)
qed

theorem feature_absent_witness:
  "fst (GetEnhancedPmdMetrics exact_floats absent_src w0) = ([], None)
   \<and> fst (GetPmdPerfMetrics exact_floats absent_src w0) = ([], None)
   \<and> fst (GetEnhancedPmdMetrics exact_floats killed_src w0)
       = ([], Some ''failed to execute pmd-perf-show: signal: killed'')
   \<and> fst (GetPmdPerfMetrics exact_floats killed_src w0)
       = ([], Some ''failed to execute pmd-perf-show: signal: killed'')
   \<and> snd (fst (GetEnhancedPmdMetrics exact_floats stats_differ_src w0)) = None"
  using feature_absent [of absent_src w0 "''exit status 2''" exact_floats "[]" "[]"]
    feature_absent [of killed_src w0 "''signal: killed''" exact_floats "[]" "[]"]
    feature_absent [of stats_differ_src w0 "[]" exact_floats two_threads "[]"]
  by (simp add: absent_src_def killed_src_def stats_differ_src_def w0_def)

lemma dom_drop_line:
  "dom (drop_line l m) =
     dom m \<union> {k. k \<in> set dropTypes \<and>
                 (case FindStringSubmatch coverageRe (TrimSpace l) of
                    None \<Rightarrow> False
                  | Some ms \<Rightarrow> ms ! 1 = k \<and> ParseUint (ms ! 2) \<noteq> None)}"
  by (auto simp: drop_line_def on_match_def with_uint_def Let_def split: option.splits)

lemma dom_fold_drop_line:
  "dom (fold drop_line ls m) =
     dom m \<union> {k. k \<in> set dropTypes \<and>
                 list_ex (\<lambda>l. case FindStringSubmatch coverageRe (TrimSpace l) of
                                None \<Rightarrow> False
                              | Some ms \<Rightarrow> ms ! 1 = k \<and> ParseUint (ms ! 2) \<noteq> None) ls}"
proof (induction ls arbitrary: m)
  case Nil
  then show ?case by simp
next
  case (Cons l ls)
  show ?case unfolding fold_simps Cons.IH dom_drop_line by auto
qed

lemma length_dropTypes: "length dropTypes = 24 \<and> distinct dropTypes"
  by (simp add: dropTypes_def)

lemma coverage_sample_lines:
  "FindStringSubmatch coverageRe (TrimSpace ''datapath_drop_meter 42'')
     = Some [''datapath_drop_meter 42'', ''datapath_drop_meter'', ''42'']"
  "FindStringSubmatch coverageRe (TrimSpace ''other_counter 7'')
     = Some [''other_counter 7'', ''other_counter'', ''7'']"
  by (simp_all add: TrimSpace_def unicodeSpaces_def coverageRe_def FindStringSubmatch_def
      is_space_def is_digit_def)

lemma coverage_sample:
  "fold drop_line (scanLines ''datapath_drop_meter 42\<newline>other_counter 7\<newline>'') Map.empty
     = [''datapath_drop_meter'' \<mapsto> 42]"
proof -
  have "scanLines ''datapath_drop_meter 42\<newline>other_counter 7\<newline>''
          = [''datapath_drop_meter 42'', ''other_counter 7'']"
    by (simp add: scanLines_def rawLines_def dropCR_def MaxScanTokenSize_def)
  then show ?thesis
    by (simp add: drop_line_def coverage_sample_lines on_match_def with_uint_def dropTypes_def
        ParseUint_def digits_val_def digit_val_def is_digit_def)
qed

text \<open>
  C7. The keys of the map \<open>GetDropCounters\<close> returns are among the 24 different names
  of \<open>dropTypes\<close>. When the command succeeds, a name is a key exactly when it is one of the 24
  and is observed in the output, so a line with another leading token adds no entry
  and a drop reason that is not observed is absent. The output
  \<open>datapath_drop_meter 42\<close>, \<open>other_counter 7\<close> gives the map with the single entry
  \<open>datapath_drop_meter \<mapsto> 42\<close>.
\<close>

theorem drop_counters_only_known:
  "dom (fst (fst (GetDropCounters src w))) \<subseteq> set dropTypes
   \<and> length dropTypes = 24 \<and> distinct dropTypes
   \<and> (src (length (invocations w)) [''ovs-appctl'', ''coverage/show''] = Inr out \<longrightarrow>
        (k \<in> dom (fst (fst (GetDropCounters src w))) \<longleftrightarrow> k \<in> set dropTypes \<and> observed out k))
   \<and> (src (length (invocations w)) [''ovs-appctl'', ''coverage/show'']
         = Inr ''datapath_drop_meter 42\<newline>other_counter 7\<newline>'' \<longrightarrow>
        fst (GetDropCounters src w) = ([''datapath_drop_meter'' \<mapsto> 42], None))"
  by (auto simp: GetDropCounters_def Output_def dom_fold_drop_line observed_def
      length_dropTypes coverage_sample split: sum.splits)

theorem drop_counters_only_known_witness:
  "fst (GetDropCounters coverage_src w0) = ([''datapath_drop_meter'' \<mapsto> 42], None)
   \<and> ''datapath_drop_meter'' \<in> dom (fst (fst (GetDropCounters coverage_src w0)))
   \<and> ''other_counter'' \<notin> dom (fst (fst (GetDropCounters coverage_src w0)))
   \<and> ''drop_action_congestion'' \<notin> dom (fst (fst (GetDropCounters coverage_src w0)))"
proof -
  have "fst (GetDropCounters coverage_src w0) = ([''datapath_drop_meter'' \<mapsto> 42], None)"
    using drop_counters_only_known
      [of coverage_src w0 "''datapath_drop_meter 42\<newline>other_counter 7\<newline>''" "[]"]
    by (simp add: coverage_src_def w0_def)
  then show ?thesis by simp
qed

lemma collectDropCounters_errors:
  "errors (fst (collectDropCounters src (e, w))) = errors e"
  by (simp add: collectDropCounters_def split: prod.splits option.splits)

lemma collectBasicPMDMetrics_errors:
  "errors (fst (collectBasicPMDMetrics ops src (e, w))) = errors e"
  by (simp add: collectBasicPMDMetrics_def split: prod.splits option.splits)

lemma CollectPMDMetrics_errors:
  "errors (fst (CollectPMDMetrics ops src others (e, w))) = errors e"
  by (simp add: CollectPMDMetrics_def collectDropCounters_errors collectBasicPMDMetrics_errors
      split: prod.splits option.splits)

text \<open>
  C3, as amended. When \<open>coverage/show\<close> fails, \<open>GetDropCounters\<close> returns a non-nil error
  to its caller \<open>collectDropCounters\<close>, which returns with the exporter unchanged: the
  metrics of the other sub-collections stay, and the error counter is not incremented.
  No step of \<open>CollectPMDMetrics\<close> changes the error counter.
\<close>

theorem drop_source_failure:
  "(src (length (invocations w)) [''ovs-appctl'', ''coverage/show''] = Inl err \<longrightarrow>
      snd (fst (GetDropCounters src w)) = Some (''failed to get coverage: '' @ err)
      \<and> fst (collectDropCounters src (e, w)) = e)
   \<and> errors (fst (collectDropCounters src (e, w))) = errors e
   \<and> errors (fst (CollectPMDMetrics ops src others (e, w))) = errors e"
  by (simp add: collectDropCounters_errors CollectPMDMetrics_errors)
     (simp add: collectDropCounters_def GetDropCounters_def Output_def)

theorem drop_source_failure_witness:
  "snd (fst (GetDropCounters absent_src w0)) = Some ''failed to get coverage: exit status 2''
   \<and> fst (collectDropCounters absent_src (e0, w0)) = e0"
  using drop_source_failure [of absent_src w0 "''exit status 2''" e0 exact_floats no_others]
  by (simp add: absent_src_def)

text \<open>
  C3 as stated fails. With \<open>drops_fail_src\<close> the third command run by
  \<open>CollectPMDMetrics\<close> is \<open>coverage/show\<close>, it fails, and the error counter is 0 before and
  after.
\<close>

theorem drop_source_failure_not_counted:
  "drops_fail_src 2 [''ovs-appctl'', ''coverage/show''] = Inl ''exit status 2''
   \<and> invocations (snd (CollectPMDMetrics exact_floats drops_fail_src no_others (e0, w0)))
       = [[''ovs-appctl'', ''dpif-netdev/pmd-perf-show''],
          [''ovs-appctl'', ''dpif-netdev/pmd-stats-show''],
          [''ovs-appctl'', ''coverage/show'']]
   \<and> errors e0 = 0
   \<and> errors (fst (CollectPMDMetrics exact_floats drops_fail_src no_others (e0, w0))) = 0"
proof -
  have "map Iterations (parseEnhancedPmdOutput exact_floats two_threads) \<noteq> []"
    by (simp add: two_threads_iterations)
  then have "parseEnhancedPmdOutput exact_floats two_threads \<noteq> []" by auto
  then show ?thesis
    by (simp add: CollectPMDMetrics_def GetEnhancedPmdMetrics_def collectDropCounters_def
        GetDropCounters_def Output_def drops_fail_src_def w0_def e0_def enrichWithStats_def)
qed

lemma int64_in_range:
  "- 9223372036854775808 \<le> x \<Longrightarrow> x < 9223372036854775808 \<Longrightarrow> int64 x = x"
  by (simp add: int64_def)

lemma quot_mult: "quot (p * 1000000000) 1000000000 = p"
  by (cases "p = 0") (auto simp: quot_def abs_mult sgn_mult mult_sgn_abs)

lemma Unix_Add_seconds:
  assumes "- 9223372036 \<le> p" "p \<le> 9223372036" "0 \<le> nanos t" "nanos t < 1000000000"
  shows "Unix (Add t (int64 (p * Second))) = Unix t + p"
proof -
  have "- 9223372036854775808 \<le> p * 1000000000" "p * 1000000000 < 9223372036854775808"
    using assms(1,2) by linarith+
  then have "int64 (p * Second) = p * 1000000000"
    unfolding Second_def by (rule int64_in_range)
  moreover have "rem (p * 1000000000) 1000000000 = 0"
    by (simp add: rem_def quot_mult)
  ultimately show ?thesis
    using assms by (simp add: Add_def Unix_def quot_mult Let_def)
qed

lemma GatherMetrics_pollInterval:
  "pollInterval (fst (GatherMetrics ops src others db now1 now2 (e, w)))
     = (if Unix now1 < nextCollectionTicker e then pollInterval e
        else pollInterval (fst (CollectPMDMetrics ops src others (db (e\<lparr>metrics := []\<rparr>, w)))))"
  by (simp add: GatherMetrics_def Let_def split: prod.splits)

lemma GatherMetrics_ticker:
  "\<not> Unix now1 < nextCollectionTicker e \<Longrightarrow>
   nextCollectionTicker (fst (GatherMetrics ops src others db now1 now2 (e, w)))
     = Unix (Add now2 (int64 (pollInterval (fst (GatherMetrics ops src others db now1 now2 (e, w))) * Second)))"
  by (simp add: GatherMetrics_def Let_def split: prod.splits)

text \<open>
  C8, as amended. A call of \<open>GatherMetrics\<close> at a time before \<open>nextCollectionTicker\<close>
  returns with the exporter and the world as they were: no rebuild, no command run.
  A call that rebuilds sets \<open>nextCollectionTicker\<close> to the time at the end of the rebuild
  plus the poll interval, provided the poll interval is between -9223372036 and
  9223372036 seconds (its product with \<open>10^9\<close> fits an \<open>int64\<close>). Then a second call, made
  after the first and less than one poll interval after the first began, changes
  nothing: of two such calls at most the first rebuilds.
\<close>

theorem rate_limit:
  "(Unix now1 < nextCollectionTicker e \<longrightarrow>
      GatherMetrics ops src others db now1 now2 (e, w) = (e, w))
   \<and> (\<not> Unix now1 < nextCollectionTicker e
       \<and> 0 \<le> nanos now2 \<and> nanos now2 < 1000000000
       \<and> - 9223372036 \<le> pollInterval (fst (GatherMetrics ops src others db now1 now2 (e, w)))
       \<and> pollInterval (fst (GatherMetrics ops src others db now1 now2 (e, w))) \<le> 9223372036 \<longrightarrow>
      nextCollectionTicker (fst (GatherMetrics ops src others db now1 now2 (e, w)))
        = Unix now2 + pollInterval (fst (GatherMetrics ops src others db now1 now2 (e, w)))
      \<and> (Unix now1 \<le> Unix now2
          \<and> Unix now3
              < Unix now1 + pollInterval (fst (GatherMetrics ops src others db now1 now2 (e, w)))
          \<longrightarrow> GatherMetrics ops src others db now3 now4
                (GatherMetrics ops src others db now1 now2 (e, w))
              = GatherMetrics ops src others db now1 now2 (e, w)))"
proof -
  let ?s = "GatherMetrics ops src others db now1 now2 (e, w)"
  have a: "Unix now1 < nextCollectionTicker e \<longrightarrow> ?s = (e, w)"
    by (simp add: GatherMetrics_def)
  have b: "nextCollectionTicker (fst ?s) = Unix now2 + pollInterval (fst ?s)"
    if "\<not> Unix now1 < nextCollectionTicker e" "0 \<le> nanos now2" "nanos now2 < 1000000000"
      "- 9223372036 \<le> pollInterval (fst ?s)" "pollInterval (fst ?s) \<le> 9223372036"
    using GatherMetrics_ticker [OF that(1)] Unix_Add_seconds [OF that(4,5,2,3)] by simp
  have c: "GatherMetrics ops src others db now3 now4 ?s = ?s"
    if "nextCollectionTicker (fst ?s) = Unix now2 + pollInterval (fst ?s)"
      "Unix now1 \<le> Unix now2" "Unix now3 < Unix now1 + pollInterval (fst ?s)"
  proof -
    have "Unix now3 < nextCollectionTicker (fst ?s)" using that by simp
    then show ?thesis by (cases ?s) (simp add: GatherMetrics_def)
  qed
  from a b c show ?thesis by blast
qed

theorem rate_limit_witness:
  "GatherMetrics exact_floats absent_src no_others no_db t0 t1
     (e0\<lparr>nextCollectionTicker := 1700000015\<rparr>, w0) = (e0\<lparr>nextCollectionTicker := 1700000015\<rparr>, w0)
   \<and> nextCollectionTicker (fst (GatherMetrics exact_floats absent_src no_others no_db t0 t1 (e0, w0)))
       = 1700000016
   \<and> GatherMetrics exact_floats absent_src no_others no_db t1 t1
        (GatherMetrics exact_floats absent_src no_others no_db t0 t1 (e0, w0))
       = GatherMetrics exact_floats absent_src no_others no_db t0 t1 (e0, w0)"
proof -
  have p: "pollInterval (fst (GatherMetrics exact_floats absent_src no_others no_db t0 t1 (e0, w0))) = 15"
    by (simp add: GatherMetrics_def CollectPMDMetrics_def GetEnhancedPmdMetrics_def Output_def
        absent_src_def no_db_def e0_def t0_def Unix_def Let_def)
  show ?thesis
    using rate_limit [of t0 "e0\<lparr>nextCollectionTicker := 1700000015\<rparr>" exact_floats absent_src
        no_others no_db t1 w0 t1 t1]
      rate_limit [of t0 e0 exact_floats absent_src no_others no_db t1 w0 t1 t1]
    by (simp add: p) (simp add: t0_def t1_def e0_def Unix_def)
qed

text \<open>
  C8 as stated fails for a poll interval of 9223372037 seconds: the product with \<open>10^9\<close>
  wraps around, and after a rebuild at time 1700000000 the next allowed poll time is
  -7523372037, not 10923372037.
\<close>

theorem rate_limit_overflow:
  "nextCollectionTicker
     (fst (GatherMetrics exact_floats absent_src no_others no_db t0 t0
            (e0\<lparr>pollInterval := 9223372037\<rparr>, w0))) = - 7523372037
   \<and> Unix t0 + 9223372037 = 10923372037"
  by (simp add: GatherMetrics_def CollectPMDMetrics_def GetEnhancedPmdMetrics_def Output_def
      absent_src_def no_db_def e0_def t0_def Unix_def Let_def Add_def int64_def Second_def
      quot_def rem_def)

end
